theory Spec2Isabelle
  imports Main "HOL-Library.Word"
begin

section \<open>The benchmark harness of benchmark.c\<close>

text \<open>
  The harness loads PNG files, runs the two conversion routines on each of them and
  reports timings. The decoder (stb_image), the two routines (qoy.h), the allocator, the
  clock and the file system are outside the program; the model takes what they return from
  an environment and records every call the harness makes in a trace, in program order.
  The two routines are taken to write inside the capacity of the buffer they are given,
  and to write through it when that capacity is not 0.
\<close>

subsection \<open>Integers and doubles\<close>

type_synonym u64 = "64 word"

text \<open>
  A C \<open>int\<close> is a 32-bit two's-complement value; it is modelled as an \<open>int\<close> and
  \<open>int32\<close> is applied wherever the code computes a value that may leave the range
  (the C standard leaves such an overflow undefined; the targets of this benchmark wrap).
  \<open>uint64_t\<close> is a 64-bit word: its addition and subtraction wrap.
\<close>

definition int32 :: "int \<Rightarrow> int" where
  "int32 x = (x + 2147483648) mod 4294967296 - 2147483648"

text \<open>
  A \<open>double\<close> is kept as the expression that computes it: the conversions and
  divisions the code performs, on the integers it performs them on. IEEE rounding is
  not modelled; two doubles computed by the same operations on the same operands are equal.
\<close>

datatype dbl =
    D_u64 u64
  | D_int int
  | D_1e6
  | D_div dbl dbl

text \<open>The denominators of the divisions of an expression, and whether one is an integer zero.\<close>

fun denominators :: "dbl \<Rightarrow> dbl list" where
  "denominators (D_div a b) = b # denominators a @ denominators b"
| "denominators _ = []"

fun is_zero :: "dbl \<Rightarrow> bool" where
  "is_zero (D_u64 w) = (w = 0)"
| "is_zero (D_int i) = (i = 0)"
| "is_zero _ = False"

subsection \<open>Output lines and the trace\<close>

datatype routine = Qoy_c | Qoy_rvv

text \<open>One constructor for each \<open>printf\<close> of the program, with its arguments.\<close>

datatype line =
    Usage_line "string option"
  | Load_error string
  | File_line string int int
  | Runs_line int dbl dbl
  | Dir_error string
  | Neither_line
  | Stat_error string
  | Global_header int
  | Global_c dbl
  | Global_rvv dbl
  | No_png_line

text \<open>The format string of each line, without its final newline.\<close>

fun format_of :: "line \<Rightarrow> string" where
  "format_of (Usage_line _) = ''Usage: %s <file_or_directory> <runs>''"
| "format_of (Load_error _) = ''Error: failed to load PNG: %s''"
| "format_of (File_line _ _ _) = ''[File] %s => %dx%d, forced RGBA=4''"
| "format_of (Runs_line _ _ _) = ''Runs=%d | C=%.3f ms, RVV=%.3f ms''"
| "format_of (Dir_error _) = ''Could not open directory: %s''"
| "format_of Neither_line = ''Input path is neither file nor directory???''"
| "format_of (Stat_error _) = ''Cannot stat: %s''"
| "format_of (Global_header _) = ''===== Global Average across %d PNG(s) =====''"
| "format_of (Global_c _) = ''C   version: %.3f ms''"
| "format_of (Global_rvv _) = ''RVV version: %.3f ms''"
| "format_of No_png_line = ''No PNG files were processed.''"

text \<open>
  The events of a run: a line printed, a \<open>malloc\<close> of the given size, a call of a
  conversion routine on an image of the given width and height, a \<open>memset\<close> of a
  routine's output buffer (byte value and size), and the \<open>k\<close>-th reading of the clock.
\<close>

datatype event =
    Stdout line
  | Malloc int
  | Call routine int int
  | Memset routine int int
  | Ns nat

subsection \<open>The environment and the global state\<close>

datatype file_type = S_IFDIR | S_IFREG | S_IFOTHER

text \<open>
  \<open>stat_mode\<close> is \<open>stat\<close> (\<open>None\<close> when it fails), \<open>dir_entries\<close> is \<open>opendir\<close>
  followed by \<open>readdir\<close> until it returns NULL (\<open>None\<close> when \<open>opendir\<close> fails),
  \<open>stbi_load\<close> gives the width and height of the decoded image (\<open>None\<close> when the
  decoder returns NULL), \<open>clock k\<close> is what the \<open>k\<close>-th call of \<open>ns()\<close> returns, and
  \<open>malloc_ok k n\<close> tells whether the \<open>k\<close>-th call of \<open>malloc\<close>, asked for \<open>n\<close>
  bytes, returns a buffer.
\<close>

record env =
  stat_mode :: "string \<Rightarrow> file_type option"
  dir_entries :: "string \<Rightarrow> string list option"
  stbi_load :: "string \<Rightarrow> (int \<times> int) option"
  clock :: "nat \<Rightarrow> u64"
  malloc_ok :: "nat \<Rightarrow> int \<Rightarrow> bool"

text \<open>
  The state of the process: the four globals, the number of clock readings and of
  \<open>malloc\<close> calls so far, whether the process has been killed by a signal, and the trace.
\<close>

record state =
  g_sum_c_time_ns :: u64
  g_sum_rvv_time_ns :: u64
  g_image_count :: int
  g_runs :: int
  ticks :: nat
  mallocs :: nat
  killed :: bool
  trace :: "event list"

definition initial_state :: state where
  "initial_state =
     \<lparr>g_sum_c_time_ns = 0, g_sum_rvv_time_ns = 0, g_image_count = 0, g_runs = 1,
      ticks = 0, mallocs = 0, killed = False, trace = []\<rparr>"

definition emit :: "event \<Rightarrow> state \<Rightarrow> state" where
  "emit e s = s\<lparr>trace := trace s @ [e]\<rparr>"

definition printf :: "line \<Rightarrow> state \<Rightarrow> state" where
  "printf l s = emit (Stdout l) s"

definition ns :: "env \<Rightarrow> state \<Rightarrow> u64 \<times> state" where
  "ns env s = (clock env (ticks s), s\<lparr>ticks := Suc (ticks s), trace := trace s @ [Ns (ticks s)]\<rparr>)"

text \<open>
  \<open>malloc(n)\<close> with an \<open>int\<close> argument: the result says whether the pointer
  returned is not NULL. The argument is converted to \<open>size_t\<close> (64 bits), so a negative
  size asks for more than \<open>2^63\<close> bytes, which no allocator gives.
\<close>

definition malloc :: "env \<Rightarrow> int \<Rightarrow> state \<Rightarrow> bool \<times> state" where
  "malloc env n s =
     (0 \<le> n \<and> malloc_ok env (mallocs s) n,
      s\<lparr>mallocs := Suc (mallocs s), trace := trace s @ [Malloc n]\<rparr>)"

text \<open>The process is killed by SIGSEGV: a write through a NULL pointer.\<close>

definition sigsegv :: "state \<Rightarrow> state" where
  "sigsegv s = s\<lparr>killed := True\<rparr>"

text \<open>What the program has printed, in order.\<close>

fun stdout_of :: "event list \<Rightarrow> line list" where
  "stdout_of [] = []"
| "stdout_of (Stdout l # es) = l # stdout_of es"
| "stdout_of (_ # es) = stdout_of es"

subsection \<open>benchmark\_image\<close>

definition outbuf_size :: "int \<Rightarrow> int \<Rightarrow> int" where
  "outbuf_size width height =
     (let block_size = (if (4::int) = 4 then 10 else 6)
      in int32 (int32 ((width div 2) * height) * block_size))"

text \<open>One pass of the body of the timed loop: the locals \<open>sum_c\<close>, \<open>sum_rvv\<close> and the state.\<close>

definition timed_iteration ::
  "env \<Rightarrow> int \<Rightarrow> int \<Rightarrow> int \<Rightarrow> u64 \<times> u64 \<times> state \<Rightarrow> u64 \<times> u64 \<times> state" where
  "timed_iteration env width height outbuf = (\<lambda>(sum_c, sum_rvv, s).
     (let s = emit (Memset Qoy_c 0 outbuf) s;
          (t0, s) = ns env s;
          s = emit (Call Qoy_c width height) s;
          (t1, s) = ns env s;
          sum_c = sum_c + (t1 - t0);
          s = emit (Memset Qoy_rvv 0 outbuf) s;
          (t2, s) = ns env s;
          s = emit (Call Qoy_rvv width height) s;
          (t3, s) = ns env s;
          sum_rvv = sum_rvv + (t3 - t2)
      in (sum_c, sum_rvv, s)))"

function timed_loop ::
  "env \<Rightarrow> int \<Rightarrow> int \<Rightarrow> int \<Rightarrow> int \<Rightarrow> int \<Rightarrow> u64 \<times> u64 \<times> state \<Rightarrow> u64 \<times> u64 \<times> state" where
  "timed_loop env width height outbuf runs i acc =
     (if i < runs
      then timed_loop env width height outbuf runs (i + 1) (timed_iteration env width height outbuf acc)
      else acc)"
  by pat_completeness auto
termination
  by (relation "measure (\<lambda>(env, width, height, outbuf, runs, i, acc). nat (runs - i))") auto

text \<open>
  The results of the two \<open>malloc\<close> calls are not checked. When a buffer of capacity
  other than 0 is NULL, the warm-up call of its routine writes through NULL and the
  process is killed there; nothing of the function runs after that. The three calls of
  \<open>free\<close> at the end change nothing that the model observes.
\<close>

definition benchmark_image :: "env \<Rightarrow> string \<Rightarrow> int \<Rightarrow> state \<Rightarrow> state" where
  "benchmark_image env path runs s =
     (case stbi_load env path of
        None \<Rightarrow> printf (Load_error path) s
      | Some (width, height) \<Rightarrow>
          (let s = printf (File_line path width height) s;
               outbuf = outbuf_size width height;
               (out_c, s) = malloc env outbuf s;
               (out_rvv, s) = malloc env outbuf s
           in if \<not> out_c \<and> outbuf \<noteq> 0 then sigsegv s
              else
                (let s = emit (Call Qoy_c width height) s
                 in if \<not> out_rvv \<and> outbuf \<noteq> 0 then sigsegv s
                    else
                      (let s = emit (Call Qoy_rvv width height) s;
                           (sum_c, sum_rvv, s) = timed_loop env width height outbuf runs 0 (0, 0, s);
                           avg_c = D_div (D_div (D_u64 sum_c) (D_int runs)) D_1e6;
                           avg_rvv = D_div (D_div (D_u64 sum_rvv) (D_int runs)) D_1e6;
                           s = printf (Runs_line runs avg_c avg_rvv) s
                       in s\<lparr>g_sum_c_time_ns := g_sum_c_time_ns s + sum_c,
                             g_sum_rvv_time_ns := g_sum_rvv_time_ns s + sum_rvv,
                             g_image_count := int32 (g_image_count s + 1)\<rparr>))))"

subsection \<open>benchmark\_directory\<close>

text \<open>\<open>snprintf(filepath, 1024, "%s/%s", dirpath, d_name)\<close>: at most 1023 characters are kept.\<close>

definition snprintf_path :: "string \<Rightarrow> string \<Rightarrow> string" where
  "snprintf_path dirpath d_name = take 1023 (dirpath @ ''/'' @ d_name)"

definition has_png_suffix :: "string \<Rightarrow> bool" where
  "has_png_suffix d_name =
     (let len = length d_name in len > 4 \<and> drop (len - 4) d_name = ''.png'')"

text \<open>
  The \<open>readdir\<close> loop, over the entries still to come. A process that has been killed
  reads no further entry.
\<close>

fun readdir_loop :: "env \<Rightarrow> string \<Rightarrow> int \<Rightarrow> string list \<Rightarrow> state \<Rightarrow> state" where
  "readdir_loop env dirpath runs [] s = s"
| "readdir_loop env dirpath runs (d_name # rest) s =
     (if killed s then s
      else if d_name = ''.'' \<or> d_name = ''..'' then readdir_loop env dirpath runs rest s
      else
        (let filepath = snprintf_path dirpath d_name
         in if has_png_suffix d_name
            then readdir_loop env dirpath runs rest (benchmark_image env filepath runs s)
            else readdir_loop env dirpath runs rest s))"

definition benchmark_directory :: "env \<Rightarrow> string \<Rightarrow> int \<Rightarrow> state \<Rightarrow> state" where
  "benchmark_directory env dirpath runs s =
     (case dir_entries env dirpath of
        None \<Rightarrow> printf (Dir_error dirpath) s
      | Some entries \<Rightarrow> readdir_loop env dirpath runs entries s)"

subsection \<open>main\<close>

text \<open>
  \<open>atoi\<close> of the C library: white space is skipped, an optional sign is read, then the
  decimal digits that follow; with no digit the result is 0. A value outside the range of
  \<open>long\<close> is clamped to it (as \<open>strtol\<close> does) and the result is converted to \<open>int\<close>.
\<close>

definition isspace :: "char \<Rightarrow> bool" where
  "isspace c = (c \<in> set [CHR '' '', CHR 0x09, CHR 0x0A, CHR 0x0B, CHR 0x0C, CHR 0x0D])"

definition isdigit :: "char \<Rightarrow> bool" where
  "isdigit c = (c \<in> set ''0123456789'')"

definition digit_value :: "char \<Rightarrow> int" where
  "digit_value c = int (of_char c) - 48"

definition atoi_digits :: "string \<Rightarrow> string" where
  "atoi_digits str =
     (let s1 = dropWhile isspace str;
          s2 = (case s1 of [] \<Rightarrow> [] | c # r \<Rightarrow> if c = CHR ''-'' \<or> c = CHR ''+'' then r else s1)
      in takeWhile isdigit s2)"

definition atoi_negative :: "string \<Rightarrow> bool" where
  "atoi_negative str = (case dropWhile isspace str of [] \<Rightarrow> False | c # r \<Rightarrow> c = CHR ''-'')"

definition atoi :: "string \<Rightarrow> int" where
  "atoi str =
     (let v = foldl (\<lambda>a c. 10 * a + digit_value c) 0 (atoi_digits str);
          l = (if atoi_negative str then max (- 9223372036854775808) (- v)
               else min 9223372036854775807 v)
      in int32 l)"

text \<open>The global average at the end of \<open>main\<close>.\<close>

definition report :: "state \<Rightarrow> state" where
  "report s =
     (if g_image_count s > 0 then
        (let avg_c = D_div (D_u64 (g_sum_c_time_ns s)) (D_int (int32 (g_image_count s * g_runs s)));
             avg_rvv = D_div (D_u64 (g_sum_rvv_time_ns s)) (D_int (int32 (g_image_count s * g_runs s)));
             avg_c = D_div avg_c D_1e6;
             avg_rvv = D_div avg_rvv D_1e6;
             s = printf (Global_header (g_image_count s)) s;
             s = printf (Global_c avg_c) s
         in printf (Global_rvv avg_rvv) s)
      else printf No_png_line s)"

text \<open>The choice between a directory and a file, by \<open>stat\<close>.\<close>

definition dispatch :: "env \<Rightarrow> string \<Rightarrow> state \<Rightarrow> state" where
  "dispatch env input_path s =
     (case stat_mode env input_path of
        Some S_IFDIR \<Rightarrow> benchmark_directory env input_path (g_runs s) s
      | Some S_IFREG \<Rightarrow> benchmark_image env input_path (g_runs s) s
      | Some S_IFOTHER \<Rightarrow> printf Neither_line s
      | None \<Rightarrow> printf (Stat_error input_path) s)"

text \<open>
  How the process ends: it returns from \<open>main\<close> with an exit status, or it is killed by
  SIGSEGV. \<open>main\<close> gives this and the final state; a process that was killed does not
  reach the report.
\<close>

datatype status = Exited int | Sigsegv

definition main :: "env \<Rightarrow> string list \<Rightarrow> status \<times> state" where
  "main env argv =
     (let s = initial_state in
      if length argv < 3
      then (Exited 0, printf (Usage_line (case argv of [] \<Rightarrow> None | a # _ \<Rightarrow> Some a)) s)
      else
        (let input_path = argv ! 1;
             s = s\<lparr>g_runs := atoi (argv ! 2)\<rparr>;
             s = (if g_runs s \<le> 0 then s\<lparr>g_runs := 1\<rparr> else s);
             s = dispatch env input_path s
         in if killed s then (Sigsegv, s) else (Exited 0, report s)))"

subsection \<open>Reading a trace\<close>

text \<open>
  The observers below are not part of the program: they read a trace, so that the
  properties of a run can be stated on what the run did.

  \<open>timed_deltas env r tr\<close> lists, in order, the elapsed time \<open>clock b - clock a\<close> of
  every call of routine \<open>r\<close> that stands in \<open>tr\<close> between two consecutive clock
  readings \<open>a\<close> and \<open>b\<close>: the timed calls of \<open>r\<close>.
\<close>

fun timed_deltas :: "env \<Rightarrow> routine \<Rightarrow> event list \<Rightarrow> u64 list" where
  "timed_deltas env r (Ns a # Call r' w h # Ns b # es) =
     (if r' = r then [clock env b - clock env a] else []) @ timed_deltas env r (Ns b # es)"
| "timed_deltas env r (e # es) = timed_deltas env r es"
| "timed_deltas env r [] = []"

text \<open>All calls of a routine, timed or not.\<close>

definition calls_of :: "routine \<Rightarrow> event list \<Rightarrow> event list" where
  "calls_of r tr = filter (\<lambda>e. case e of Call r' w h \<Rightarrow> r' = r | _ \<Rightarrow> False) tr"

text \<open>The per-file result lines printed so far: one for each image benchmarked.\<close>

definition is_runs_line :: "line \<Rightarrow> bool" where
  "is_runs_line l = (case l of Runs_line n a b \<Rightarrow> True | _ \<Rightarrow> False)"

definition images_done :: "event list \<Rightarrow> nat" where
  "images_done tr = length (filter is_runs_line (stdout_of tr))"

definition is_global_line :: "line \<Rightarrow> bool" where
  "is_global_line l =
     (case l of Global_header n \<Rightarrow> True | Global_c a \<Rightarrow> True | Global_rvv a \<Rightarrow> True | _ \<Rightarrow> False)"

text \<open>The denominators of every division behind a printed number.\<close>

fun line_denominators :: "line \<Rightarrow> dbl list" where
  "line_denominators (Runs_line n a b) = denominators a @ denominators b"
| "line_denominators (Global_c a) = denominators a"
| "line_denominators (Global_rvv a) = denominators a"
| "line_denominators _ = []"

text \<open>
  The events of one pass of the timed loop that starts at clock reading \<open>t\<close>, the two
  elapsed times it measures, and the same for \<open>n\<close> passes in a row.
\<close>

definition iteration_events :: "int \<Rightarrow> int \<Rightarrow> int \<Rightarrow> nat \<Rightarrow> event list" where
  "iteration_events width height outbuf t =
     [Memset Qoy_c 0 outbuf, Ns t, Call Qoy_c width height, Ns (t + 1),
      Memset Qoy_rvv 0 outbuf, Ns (t + 2), Call Qoy_rvv width height, Ns (t + 3)]"

definition delta_c :: "env \<Rightarrow> nat \<Rightarrow> u64" where
  "delta_c env t = clock env (t + 1) - clock env t"

definition delta_rvv :: "env \<Rightarrow> nat \<Rightarrow> u64" where
  "delta_rvv env t = clock env (t + 3) - clock env (t + 2)"

definition loop_events :: "int \<Rightarrow> int \<Rightarrow> int \<Rightarrow> nat \<Rightarrow> nat \<Rightarrow> event list" where
  "loop_events width height outbuf t n =
     concat (map (\<lambda>k. iteration_events width height outbuf (t + 4 * k)) [0..<n])"

definition loop_sum_c :: "env \<Rightarrow> nat \<Rightarrow> nat \<Rightarrow> u64" where
  "loop_sum_c env t n = sum_list (map (\<lambda>k. delta_c env (t + 4 * k)) [0..<n])"

definition loop_sum_rvv :: "env \<Rightarrow> nat \<Rightarrow> nat \<Rightarrow> u64" where
  "loop_sum_rvv env t n = sum_list (map (\<lambda>k. delta_rvv env (t + 4 * k)) [0..<n])"

text \<open>The per-file average the program prints for a sum of elapsed times.\<close>

definition file_avg :: "u64 \<Rightarrow> int \<Rightarrow> dbl" where
  "file_avg sum_ns runs = D_div (D_div (D_u64 sum_ns) (D_int runs)) D_1e6"

text \<open>
  The directory entries that reach \<open>benchmark_image\<close>, and those of them that the
  decoder loads.
\<close>

definition targets :: "string list \<Rightarrow> string list" where
  "targets entries = filter has_png_suffix entries"

definition loaded :: "env \<Rightarrow> string \<Rightarrow> string list \<Rightarrow> string list" where
  "loaded env dirpath entries =
     filter (\<lambda>d_name. stbi_load env (snprintf_path dirpath d_name) \<noteq> None) (targets entries)"

text \<open>
  Everything \<open>benchmark_image\<close> does for an image that loads and gets its two
  buffers, from clock reading \<open>t\<close> on.
\<close>

definition image_events :: "env \<Rightarrow> string \<Rightarrow> int \<Rightarrow> int \<Rightarrow> int \<Rightarrow> nat \<Rightarrow> event list" where
  "image_events env path width height runs t =
     [Stdout (File_line path width height),
      Malloc (outbuf_size width height), Malloc (outbuf_size width height),
      Call Qoy_c width height, Call Qoy_rvv width height]
     @ loop_events width height (outbuf_size width height) t (nat runs)
     @ [Stdout (Runs_line runs (file_avg (loop_sum_c env t (nat runs)) runs)
                               (file_avg (loop_sum_rvv env t (nat runs)) runs))]"

text \<open>A trace that does not begin in the middle of a timed call.\<close>

fun untimed_start :: "event list \<Rightarrow> bool" where
  "untimed_start [] = True"
| "untimed_start (Stdout l # es) = True"
| "untimed_start (Memset r b n # es) = True"
| "untimed_start (e # es) = False"

text \<open>
  The accumulators account for the trace: each sum is the sum of the elapsed times of the
  timed calls of its routine, the counter is the number of images benchmarked (as an
  \<open>int\<close>), and each routine has had \<open>g_runs\<close> timed calls for each of these images.
\<close>

definition accounted :: "env \<Rightarrow> state \<Rightarrow> bool" where
  "accounted env s =
     (g_sum_c_time_ns s = sum_list (timed_deltas env Qoy_c (trace s)) \<and>
      g_sum_rvv_time_ns s = sum_list (timed_deltas env Qoy_rvv (trace s)) \<and>
      g_image_count s = int32 (int (images_done (trace s))) \<and>
      length (timed_deltas env Qoy_c (trace s)) = images_done (trace s) * nat (g_runs s) \<and>
      length (timed_deltas env Qoy_rvv (trace s)) = images_done (trace s) * nat (g_runs s))"

text \<open>The repetition count \<open>main\<close> leaves in \<open>g_runs\<close> for the token \<open>argv[2]\<close>.\<close>

definition run_count :: "string \<Rightarrow> int" where
  "run_count tok = (if atoi tok \<le> 0 then 1 else atoi tok)"

subsection \<open>A sample environment\<close>

text \<open>
  A directory \<open>pics\<close> with two images that load, one that does not and a text file; a
  directory \<open>dots\<close> whose only file is named \<open>.png\<close>; a single image
  \<open>one.png\<close>. The \<open>k\<close>-th reading of the clock is \<open>k * k\<close>, and the allocator
  gives every buffer it can be asked for.
\<close>

definition sample_env :: env where
  "sample_env =
     \<lparr>stat_mode = (\<lambda>p. if p = ''pics'' \<or> p = ''dots'' then Some S_IFDIR
                        else if p = ''one.png'' then Some S_IFREG else None),
      dir_entries = (\<lambda>p. if p = ''pics''
                          then Some [''.'', ''..'', ''a.png'', ''bad.png'', ''notes.txt'', ''b.png'']
                          else if p = ''dots'' then Some [''.'', ''..'', ''.png''] else None),
      stbi_load = (\<lambda>p. if p = ''pics/a.png'' then Some (4, 2)
                        else if p = ''pics/b.png'' then Some (2, 2)
                        else if p = ''dots/.png'' then Some (2, 2)
                        else if p = ''one.png'' then Some (4, 4) else None),
      clock = (\<lambda>k. of_nat (k * k)),
      malloc_ok = (\<lambda>k n. True)\<rparr>"

text \<open>
  The same machine with one file, \<open>huge.png\<close>, an image of 21000 by 21000 pixels that
  the decoder loads.
\<close>

definition huge_env :: env where
  "huge_env =
     sample_env
       \<lparr>stat_mode := (\<lambda>p. if p = ''huge.png'' then Some S_IFREG else None),
        dir_entries := (\<lambda>p. None),
        stbi_load := (\<lambda>p. if p = ''huge.png'' then Some (21000, 21000) else None)\<rparr>"

text \<open>The events a step appended to the trace.\<close>

definition added_events :: "state \<Rightarrow> state \<Rightarrow> event list" where
  "added_events s s' = drop (length (trace s)) (trace s')"

text \<open>The three accumulators of a state.\<close>

definition accumulators :: "state \<Rightarrow> u64 \<times> u64 \<times> int" where
  "accumulators s = (g_sum_c_time_ns s, g_sum_rvv_time_ns s, g_image_count s)"

text \<open>Two states that differ at most in their traces.\<close>

definition same_but_trace :: "state \<Rightarrow> state \<Rightarrow> bool" where
  "same_but_trace s s' =
     (g_sum_c_time_ns s = g_sum_c_time_ns s' \<and> g_sum_rvv_time_ns s = g_sum_rvv_time_ns s' \<and>
      g_image_count s = g_image_count s' \<and> g_runs s = g_runs s' \<and> ticks s = ticks s' \<and>
      mallocs s = mallocs s' \<and> killed s = killed s')"

text \<open>
  The entries that the specification counts: those whose name ends with \<open>.png\<close>, the
  entries \<open>.\<close> and \<open>..\<close> left out. This definition follows the words of the
  specification, not the code; \<open>targets\<close> and \<open>loaded\<close> follow the code.
\<close>

definition spec_png_entry :: "string \<Rightarrow> bool" where
  "spec_png_entry d_name =
     (d_name \<noteq> ''.'' \<and> d_name \<noteq> ''..'' \<and> 4 \<le> length d_name \<and>
      drop (length d_name - 4) d_name = ''.png'')"

text \<open>
  The lines that the scan of the targets can print with the repetition count \<open>runs\<close>:
  the diagnostics, the file lines, and result lines whose two numbers are each divided by
  \<open>runs\<close> and by \<open>1e6\<close>.
\<close>

definition scan_line :: "int \<Rightarrow> line \<Rightarrow> bool" where
  "scan_line runs l =
     (case l of
        Runs_line n a b \<Rightarrow>
          n = runs \<and> denominators a = [D_1e6, D_int runs] \<and> denominators b = [D_1e6, D_int runs]
      | Usage_line p \<Rightarrow> False
      | Global_header n \<Rightarrow> False
      | Global_c a \<Rightarrow> False
      | Global_rvv a \<Rightarrow> False
      | No_png_line \<Rightarrow> False
      | _ \<Rightarrow> True)"

text \<open>
  Both output buffers of an image can be used: the capacity is 0, or it is positive and
  the next two calls of \<open>malloc\<close> return a buffer.
\<close>

definition buffers_allocated :: "env \<Rightarrow> state \<Rightarrow> int \<Rightarrow> bool" where
  "buffers_allocated env s outbuf =
     (outbuf = 0 \<or>
      (0 < outbuf \<and> malloc_ok env (mallocs s) outbuf \<and> malloc_ok env (Suc (mallocs s)) outbuf))"

text \<open>
  What \<open>benchmark_image\<close> does for an image that loads and does not get its buffers:
  the file line, the two calls of \<open>malloc\<close>, and the warm-up call of the baseline
  routine when its buffer, the first, is there.
\<close>

definition fault_events :: "env \<Rightarrow> state \<Rightarrow> string \<Rightarrow> int \<Rightarrow> int \<Rightarrow> event list" where
  "fault_events env s path width height =
     [Stdout (File_line path width height),
      Malloc (outbuf_size width height), Malloc (outbuf_size width height)]
     @ (if 0 \<le> outbuf_size width height \<and> malloc_ok env (mallocs s) (outbuf_size width height)
        then [Call Qoy_c width height] else [])"

text \<open>
  An environment in which no image is ever without its buffers: the allocator gives
  every buffer of a size that is not negative, and the size computed for every image that
  the decoder returns is not negative.
\<close>

definition never_faults :: "env \<Rightarrow> bool" where
  "never_faults env =
     ((\<forall>k n. 0 \<le> n \<longrightarrow> malloc_ok env k n) \<and>
      (\<forall>path width height. stbi_load env path = Some (width, height) \<longrightarrow>
         0 \<le> outbuf_size width height))"



section \<open>Properties\<close>

lemma int32_idem: "int32 (int32 x + y) = int32 (x + y)"
proof -
  have "(int32 x + y + 2147483648) mod 4294967296
        = ((x + 2147483648) mod 4294967296 + y) mod 4294967296"
    by (simp add: int32_def algebra_simps)
  also have "\<dots> = (x + y + 2147483648) mod 4294967296"
    by presburger
  finally show ?thesis
    by (simp add: int32_def)
qed

lemma int32_id: "- 2147483648 \<le> x \<Longrightarrow> x < 2147483648 \<Longrightarrow> int32 x = x"
  by (simp add: int32_def)

lemma timed_iteration_eq:
  "timed_iteration env w h ob (a, b, s) =
     (a + delta_c env (ticks s), b + delta_rvv env (ticks s),
      s\<lparr>ticks := ticks s + 4, trace := trace s @ iteration_events w h ob (ticks s)\<rparr>)"
  by (simp add: timed_iteration_def ns_def emit_def delta_c_def delta_rvv_def iteration_events_def Let_def eval_nat_numeral)

lemma loop_events_0: "loop_events w h ob t 0 = []"
  by (simp add: loop_events_def)

lemma loop_events_Suc:
  "loop_events w h ob t (Suc n) = iteration_events w h ob t @ loop_events w h ob (t + 4) n"
proof -
  have "[0..<Suc n] = 0 # map Suc [0..<n]"
    by (simp add: upt_conv_Cons map_Suc_upt del: upt_Suc)
  then show ?thesis
    by (simp add: loop_events_def comp_def algebra_simps del: upt_Suc)
qed

lemma loop_sum_c_0: "loop_sum_c env t 0 = 0"
  by (simp add: loop_sum_c_def)

lemma loop_sum_c_Suc: "loop_sum_c env t (Suc n) = delta_c env t + loop_sum_c env (t + 4) n"
proof -
  have "[0..<Suc n] = 0 # map Suc [0..<n]"
    by (simp add: upt_conv_Cons map_Suc_upt del: upt_Suc)
  then show ?thesis
    by (simp add: loop_sum_c_def comp_def algebra_simps del: upt_Suc)
qed

lemma loop_sum_rvv_0: "loop_sum_rvv env t 0 = 0"
  by (simp add: loop_sum_rvv_def)

lemma loop_sum_rvv_Suc: "loop_sum_rvv env t (Suc n) = delta_rvv env t + loop_sum_rvv env (t + 4) n"
proof -
  have "[0..<Suc n] = 0 # map Suc [0..<n]"
    by (simp add: upt_conv_Cons map_Suc_upt del: upt_Suc)
  then show ?thesis
    by (simp add: loop_sum_rvv_def comp_def algebra_simps del: upt_Suc)
qed

declare timed_loop.simps [simp del]

lemma timed_loop_eq:
  "timed_loop env w h ob runs i (a, b, s) =
     (a + loop_sum_c env (ticks s) (nat (runs - i)),
      b + loop_sum_rvv env (ticks s) (nat (runs - i)),
      s\<lparr>ticks := ticks s + 4 * nat (runs - i),
           trace := trace s @ loop_events w h ob (ticks s) (nat (runs - i))\<rparr>)"
proof (induction "nat (runs - i)" arbitrary: i a b s)
  case 0
  then have "\<not> i < runs" by simp
  then have "timed_loop env w h ob runs i (a, b, s) = (a, b, s)"
    by (subst timed_loop.simps) simp
  with 0 [symmetric] show ?case
    by (simp add: loop_sum_c_0 loop_sum_rvv_0 loop_events_0)
next
  case (Suc n)
  then have lt: "i < runs" and n: "n = nat (runs - (i + 1))" by auto
  have "timed_loop env w h ob runs i (a, b, s) =
        timed_loop env w h ob runs (i + 1) (timed_iteration env w h ob (a, b, s))"
    using lt by (subst timed_loop.simps) simp
  also have "\<dots> =
      (a + delta_c env (ticks s) + loop_sum_c env (ticks s + 4) n,
       b + delta_rvv env (ticks s) + loop_sum_rvv env (ticks s + 4) n,
       s\<lparr>ticks := ticks s + 4 + 4 * n,
            trace := trace s @ iteration_events w h ob (ticks s) @ loop_events w h ob (ticks s + 4) n\<rparr>)"
    unfolding timed_iteration_eq using Suc.hyps(1) [OF n] n by simp
  finally show ?case
    using Suc.hyps(2) [symmetric]
    by (simp add: loop_sum_c_Suc loop_sum_rvv_Suc loop_events_Suc add.assoc)
qed

lemma benchmark_image_loaded:
  assumes "stbi_load env path = Some (width, height)"
    and "buffers_allocated env s (outbuf_size width height)"
  shows "benchmark_image env path runs s =
     s\<lparr>g_sum_c_time_ns := g_sum_c_time_ns s + loop_sum_c env (ticks s) (nat runs),
        g_sum_rvv_time_ns := g_sum_rvv_time_ns s + loop_sum_rvv env (ticks s) (nat runs),
        g_image_count := int32 (g_image_count s + 1),
        ticks := ticks s + 4 * nat runs,
        mallocs := mallocs s + 2,
        trace := trace s @ image_events env path width height runs (ticks s)\<rparr>"
  using assms
  by (auto simp: benchmark_image_def malloc_def buffers_allocated_def timed_loop_eq printf_def
      emit_def image_events_def file_avg_def Let_def)

lemma benchmark_image_faulted:
  assumes "stbi_load env path = Some (width, height)"
    and "\<not> buffers_allocated env s (outbuf_size width height)"
  shows "benchmark_image env path runs s =
     s\<lparr>mallocs := mallocs s + 2, killed := True,
        trace := trace s @ fault_events env s path width height\<rparr>"
  using assms
  by (auto simp: benchmark_image_def malloc_def sigsegv_def buffers_allocated_def printf_def
      emit_def fault_events_def Let_def)

lemma killed_benchmark_image:
  "killed (benchmark_image env path runs s) =
     (killed s \<or>
      (case stbi_load env path of
         None \<Rightarrow> False
       | Some (width, height) \<Rightarrow> \<not> buffers_allocated env s (outbuf_size width height)))"
proof (cases "stbi_load env path")
  case None
  then show ?thesis
    by (simp add: benchmark_image_def printf_def emit_def)
next
  case (Some wh)
  obtain w h where wh: "wh = (w, h)" by (cases wh)
  show ?thesis
  proof (cases "buffers_allocated env s (outbuf_size w h)")
    case True
    with Some wh show ?thesis
      by (simp add: benchmark_image_loaded)
  next
    case False
    with Some wh show ?thesis
      by (simp add: benchmark_image_faulted)
  qed
qed

lemma benchmark_image_alive:
  assumes "stbi_load env path = Some (width, height)"
    and "\<not> killed (benchmark_image env path runs s)"
  shows "buffers_allocated env s (outbuf_size width height)"
  using assms by (simp add: killed_benchmark_image)

lemma benchmark_image_failed:
  assumes "stbi_load env path = None"
  shows "benchmark_image env path runs s = s\<lparr>trace := trace s @ [Stdout (Load_error path)]\<rparr>"
  using assms by (simp add: benchmark_image_def printf_def emit_def)

lemma untimed_start_fault_events: "untimed_start (fault_events env s path w h)"
  by (simp add: fault_events_def)

lemma timed_deltas_fault_events: "timed_deltas env r (fault_events env s path w h) = []"
  by (simp add: fault_events_def)

lemma stdout_of_fault_events: "stdout_of (fault_events env s path w h) = [File_line path w h]"
  by (simp add: fault_events_def)

lemma stdout_of_append: "stdout_of (xs @ ys) = stdout_of xs @ stdout_of ys"
  by (induction xs rule: stdout_of.induct) simp_all

lemma images_done_append: "images_done (xs @ ys) = images_done xs + images_done ys"
  by (simp add: images_done_def stdout_of_append)

lemma timed_deltas_append:
  "untimed_start ys \<Longrightarrow> timed_deltas env r (xs @ ys) = timed_deltas env r xs @ timed_deltas env r ys"
proof (induction env r xs rule: timed_deltas.induct)
  case (1 env r a r' w h b es)
  then show ?case by simp
next
  case (3 env r)
  then show ?case by simp
qed (cases ys rule: untimed_start.cases; simp)+

lemma untimed_start_loop_events: "untimed_start (loop_events w h ob t n @ Stdout l # es)"
  by (cases n) (simp_all add: loop_events_0 loop_events_Suc iteration_events_def)

lemma timed_deltas_iteration_c:
  "untimed_start es \<Longrightarrow>
   timed_deltas env Qoy_c (iteration_events w h ob t @ es) = delta_c env t # timed_deltas env Qoy_c es"
  by (cases es rule: untimed_start.cases) (simp_all add: iteration_events_def delta_c_def)

lemma timed_deltas_iteration_rvv:
  "untimed_start es \<Longrightarrow>
   timed_deltas env Qoy_rvv (iteration_events w h ob t @ es) = delta_rvv env t # timed_deltas env Qoy_rvv es"
  by (cases es rule: untimed_start.cases) (simp_all add: iteration_events_def delta_rvv_def)

lemma timed_deltas_loop_c:
  "timed_deltas env Qoy_c (loop_events w h ob t n @ Stdout l # es) =
     map (\<lambda>k. delta_c env (t + 4 * k)) [0..<n] @ timed_deltas env Qoy_c es"
proof (induction n arbitrary: t)
  case 0
  then show ?case by (simp add: loop_events_0)
next
  case (Suc n)
  have up: "[0..<Suc n] = 0 # map Suc [0..<n]"
    by (simp add: upt_conv_Cons map_Suc_upt del: upt_Suc)
  show ?case
    unfolding up
    by (simp add: loop_events_Suc timed_deltas_iteration_c untimed_start_loop_events Suc.IH
        comp_def algebra_simps)
qed

lemma timed_deltas_loop_rvv:
  "timed_deltas env Qoy_rvv (loop_events w h ob t n @ Stdout l # es) =
     map (\<lambda>k. delta_rvv env (t + 4 * k)) [0..<n] @ timed_deltas env Qoy_rvv es"
proof (induction n arbitrary: t)
  case 0
  then show ?case by (simp add: loop_events_0)
next
  case (Suc n)
  have up: "[0..<Suc n] = 0 # map Suc [0..<n]"
    by (simp add: upt_conv_Cons map_Suc_upt del: upt_Suc)
  show ?case
    unfolding up
    by (simp add: loop_events_Suc timed_deltas_iteration_rvv untimed_start_loop_events Suc.IH
        comp_def algebra_simps)
qed

lemma timed_deltas_image_c:
  "timed_deltas env Qoy_c (image_events env path w h runs t) =
     map (\<lambda>k. delta_c env (t + 4 * k)) [0..<nat runs]"
  by (simp add: image_events_def timed_deltas_loop_c)

lemma timed_deltas_image_rvv:
  "timed_deltas env Qoy_rvv (image_events env path w h runs t) =
     map (\<lambda>k. delta_rvv env (t + 4 * k)) [0..<nat runs]"
  by (simp add: image_events_def timed_deltas_loop_rvv)

lemma stdout_of_loop_events: "stdout_of (loop_events w h ob t n) = []"
  by (induction n arbitrary: t)
     (simp_all add: loop_events_0 loop_events_Suc stdout_of_append iteration_events_def)

lemma stdout_of_image_events:
  "stdout_of (image_events env path w h runs t) =
     [File_line path w h,
      Runs_line runs (file_avg (loop_sum_c env t (nat runs)) runs)
                     (file_avg (loop_sum_rvv env t (nat runs)) runs)]"
  by (simp add: image_events_def stdout_of_append stdout_of_loop_events)

lemma images_done_image_events: "images_done (image_events env path w h runs t) = 1"
  by (simp add: images_done_def stdout_of_image_events is_runs_line_def)

lemma untimed_start_image_events: "untimed_start (image_events env path w h runs t)"
  by (simp add: image_events_def)

lemma images_done_print: "images_done [Stdout l] = (if is_runs_line l then 1 else 0)"
  by (simp add: images_done_def)

lemma images_done_fault_events: "images_done (fault_events env s path w h) = 0"
  by (simp add: images_done_def stdout_of_fault_events is_runs_line_def)

lemma accounted_benchmark_image:
  assumes "accounted env s" and "runs = g_runs s"
  shows "accounted env (benchmark_image env path runs s)"
proof (cases "stbi_load env path")
  case None
  then show ?thesis
    using assms
    by (simp add: benchmark_image_failed accounted_def timed_deltas_append images_done_append
        images_done_print is_runs_line_def)
next
  case (Some wh)
  obtain w h where wh: "wh = (w, h)" by (cases wh)
  have idem: "int32 (int32 (int n) + 1) = int32 (int n + 1)" for n
    by (rule int32_idem)
  show ?thesis
  proof (cases "buffers_allocated env s (outbuf_size w h)")
    case True
    with idem show ?thesis
      using assms Some wh
      by (simp add: benchmark_image_loaded accounted_def timed_deltas_append
          untimed_start_image_events timed_deltas_image_c timed_deltas_image_rvv
          images_done_append images_done_image_events loop_sum_c_def loop_sum_rvv_def
          algebra_simps)
  next
    case False
    then show ?thesis
      using assms Some wh
      by (simp add: benchmark_image_faulted accounted_def timed_deltas_append
          untimed_start_fault_events timed_deltas_fault_events images_done_append
          images_done_fault_events)
  qed
qed

lemma g_runs_benchmark_image: "g_runs (benchmark_image env path runs s) = g_runs s"
proof (cases "stbi_load env path")
  case None
  then show ?thesis
    by (simp add: benchmark_image_failed)
next
  case (Some wh)
  obtain w h where wh: "wh = (w, h)" by (cases wh)
  show ?thesis
    using Some wh
    by (cases "buffers_allocated env s (outbuf_size w h)")
       (simp_all add: benchmark_image_loaded benchmark_image_faulted)
qed

lemma readdir_loop_killed: "killed s \<Longrightarrow> readdir_loop env dirpath runs entries s = s"
  by (cases entries) simp_all

lemma readdir_loop_alive_start:
  "\<not> killed (readdir_loop env dirpath runs entries s) \<Longrightarrow> \<not> killed s"
  using readdir_loop_killed [of s env dirpath runs entries] by auto

lemma dot_not_png: "\<not> has_png_suffix ''.''" "\<not> has_png_suffix ''..''"
  by (simp_all add: has_png_suffix_def)

lemma readdir_loop_Cons:
  "readdir_loop env dirpath runs (d_name # rest) s =
     (if killed s then s
      else if has_png_suffix d_name
      then readdir_loop env dirpath runs rest (benchmark_image env (snprintf_path dirpath d_name) runs s)
      else readdir_loop env dirpath runs rest s)"
  using dot_not_png by (auto simp: Let_def)

lemma g_runs_readdir_loop: "g_runs (readdir_loop env dirpath runs entries s) = g_runs s"
  by (induction entries arbitrary: s)
     (simp_all add: readdir_loop_Cons g_runs_benchmark_image del: readdir_loop.simps(2))

lemma accounted_readdir_loop:
  "accounted env s \<Longrightarrow> runs = g_runs s \<Longrightarrow> accounted env (readdir_loop env dirpath runs entries s)"
proof (induction entries arbitrary: s)
  case Nil
  then show ?case by simp
next
  case (Cons d rest)
  have "accounted env (benchmark_image env (snprintf_path dirpath d) runs s)"
    using Cons.prems by (rule accounted_benchmark_image)
  moreover have "runs = g_runs (benchmark_image env (snprintf_path dirpath d) runs s)"
    using Cons.prems by (simp add: g_runs_benchmark_image)
  ultimately have "accounted env
      (readdir_loop env dirpath runs rest (benchmark_image env (snprintf_path dirpath d) runs s))"
    by (rule Cons.IH)
  moreover have "accounted env (readdir_loop env dirpath runs rest s)"
    using Cons.prems by (rule Cons.IH)
  ultimately show ?case
    using Cons.prems(1) by (simp add: readdir_loop_Cons del: readdir_loop.simps(2))
qed

lemma readdir_loop_append:
  "readdir_loop env dirpath runs (xs @ ys) s =
     readdir_loop env dirpath runs ys (readdir_loop env dirpath runs xs s)"
proof (induction xs arbitrary: s)
  case Nil
  then show ?case by simp
next
  case (Cons x xs)
  show ?case
  proof (cases "killed s")
    case True
    then show ?thesis
      by (simp add: readdir_loop_killed)
  next
    case False
    then show ?thesis
      using Cons.IH by (simp add: readdir_loop_Cons del: readdir_loop.simps(2))
  qed
qed

lemma g_image_count_benchmark_image:
  "\<not> killed (benchmark_image env path runs s) \<Longrightarrow>
   g_image_count (benchmark_image env path runs s) =
     (if stbi_load env path = None then g_image_count s else int32 (g_image_count s + 1))"
proof (cases "stbi_load env path")
  case None
  then show ?thesis
    by (simp add: benchmark_image_failed)
next
  case (Some wh)
  assume alive: "\<not> killed (benchmark_image env path runs s)"
  obtain w h where wh: "wh = (w, h)" by (cases wh)
  from Some wh alive have "buffers_allocated env s (outbuf_size w h)"
    by (simp add: benchmark_image_alive)
  with Some wh show ?thesis
    by (simp add: benchmark_image_loaded)
qed

lemma g_image_count_readdir_loop:
  "\<not> killed (readdir_loop env dirpath runs entries s) \<Longrightarrow> g_image_count s = int32 c \<Longrightarrow>
   g_image_count (readdir_loop env dirpath runs entries s) =
     int32 (c + int (length (loaded env dirpath entries)))"
proof (induction entries arbitrary: s c)
  case Nil
  then show ?case by (simp add: loaded_def targets_def)
next
  case (Cons d rest)
  from Cons.prems(1) have alive: "\<not> killed s"
    by (rule readdir_loop_alive_start)
  show ?case
  proof (cases "has_png_suffix d")
    case True
    let ?s' = "benchmark_image env (snprintf_path dirpath d) runs s"
    have step: "readdir_loop env dirpath runs (d # rest) s = readdir_loop env dirpath runs rest ?s'"
      using alive True by (simp add: readdir_loop_Cons del: readdir_loop.simps(2))
    with Cons.prems(1) have alive_rest: "\<not> killed (readdir_loop env dirpath runs rest ?s')"
      by simp
    then have alive': "\<not> killed ?s'"
      by (rule readdir_loop_alive_start)
    show ?thesis
    proof (cases "stbi_load env (snprintf_path dirpath d) = None")
      case None: True
      with alive' Cons.prems(2) have "g_image_count ?s' = int32 c"
        by (simp add: g_image_count_benchmark_image)
      from Cons.IH [OF alive_rest this] None \<open>has_png_suffix d\<close> show ?thesis
        unfolding step by (simp add: loaded_def targets_def)
    next
      case False
      with alive' Cons.prems(2) have "g_image_count ?s' = int32 (c + 1)"
        by (auto simp: g_image_count_benchmark_image int32_idem)
      from Cons.IH [OF alive_rest this] False \<open>has_png_suffix d\<close> show ?thesis
        unfolding step by (simp add: loaded_def targets_def add.assoc)
    qed
  next
    case False
    then have step: "readdir_loop env dirpath runs (d # rest) s = readdir_loop env dirpath runs rest s"
      using alive by (simp add: readdir_loop_Cons del: readdir_loop.simps(2))
    with Cons.prems(1) have "\<not> killed (readdir_loop env dirpath runs rest s)"
      by simp
    from Cons.IH [OF this Cons.prems(2)] False show ?thesis
      unfolding step by (simp add: loaded_def targets_def)
  qed
qed

lemma accounted_initial: "accounted env (initial_state\<lparr>g_runs := r\<rparr>)"
  by (simp add: accounted_def initial_state_def images_done_def int32_def)

lemma accounted_printf:
  "accounted env s \<Longrightarrow> \<not> is_runs_line l \<Longrightarrow> accounted env (printf l s)"
  by (simp add: accounted_def printf_def emit_def timed_deltas_append images_done_append
      images_done_print)

lemma accounted_benchmark_directory:
  "accounted env s \<Longrightarrow> runs = g_runs s \<Longrightarrow> accounted env (benchmark_directory env dirpath runs s)"
  by (cases "dir_entries env dirpath")
     (simp_all add: benchmark_directory_def accounted_readdir_loop accounted_printf is_runs_line_def)

lemma accounted_dispatch: "accounted env s \<Longrightarrow> accounted env (dispatch env input_path s)"
  by (simp add: dispatch_def accounted_benchmark_directory accounted_benchmark_image
      accounted_printf is_runs_line_def split: option.split file_type.split)

lemma accounted_report: "accounted env s \<Longrightarrow> accounted env (report s)"
  by (simp add: report_def Let_def accounted_printf is_runs_line_def)

lemma main_usage:
  "length argv < 3 \<Longrightarrow>
   main env argv =
     (Exited 0, printf (Usage_line (case argv of [] \<Rightarrow> None | a # _ \<Rightarrow> Some a)) initial_state)"
  by (simp add: main_def)

lemma main_dispatch:
  "3 \<le> length argv \<Longrightarrow>
   main env argv =
     (if killed (dispatch env (argv ! 1) (initial_state\<lparr>g_runs := run_count (argv ! 2)\<rparr>))
      then (Sigsegv, dispatch env (argv ! 1) (initial_state\<lparr>g_runs := run_count (argv ! 2)\<rparr>))
      else (Exited 0,
            report (dispatch env (argv ! 1) (initial_state\<lparr>g_runs := run_count (argv ! 2)\<rparr>))))"
  by (simp add: main_def run_count_def Let_def)

lemma killed_printf: "killed (printf l s) = killed s"
  by (simp add: printf_def emit_def)

lemma killed_report: "killed (report s) = killed s"
  by (simp add: report_def Let_def killed_printf)

lemma killed_main:
  "3 \<le> length argv \<Longrightarrow>
   killed (snd (main env argv)) =
     killed (dispatch env (argv ! 1) (initial_state\<lparr>g_runs := run_count (argv ! 2)\<rparr>))"
  by (simp add: main_dispatch killed_report)

lemma main_run:
  "3 \<le> length argv \<Longrightarrow> \<not> killed (snd (main env argv)) \<Longrightarrow>
   main env argv =
     (Exited 0, report (dispatch env (argv ! 1) (initial_state\<lparr>g_runs := run_count (argv ! 2)\<rparr>)))"
  by (simp add: killed_main) (simp add: main_dispatch)

lemma main_killed:
  "3 \<le> length argv \<Longrightarrow> killed (snd (main env argv)) \<Longrightarrow>
   main env argv =
     (Sigsegv, dispatch env (argv ! 1) (initial_state\<lparr>g_runs := run_count (argv ! 2)\<rparr>))"
  by (simp add: killed_main) (simp add: main_dispatch)

lemma accounted_main: "accounted env (snd (main env argv))"
proof (cases "length argv < 3")
  case True
  have "accounted env initial_state"
    using accounted_initial [of env 1] by (simp add: initial_state_def)
  then show ?thesis
    using True by (simp add: main_usage accounted_printf is_runs_line_def)
next
  case False
  then show ?thesis
    by (simp add: main_dispatch accounted_report accounted_dispatch accounted_initial)
qed

lemma g_runs_printf: "g_runs (printf l s) = g_runs s"
  by (simp add: printf_def emit_def)

lemma g_runs_dispatch: "g_runs (dispatch env input_path s) = g_runs s"
  by (simp add: dispatch_def benchmark_directory_def g_runs_readdir_loop g_runs_benchmark_image
      g_runs_printf split: option.split file_type.split)

lemma g_runs_report: "g_runs (report s) = g_runs s"
  by (simp add: report_def Let_def g_runs_printf)

lemma stdout_printf: "stdout_of (trace (printf l s)) = stdout_of (trace s) @ [l]"
  by (simp add: printf_def emit_def stdout_of_append)

lemma stdout_report:
  "stdout_of (trace (report s)) = stdout_of (trace s) @
     (if g_image_count s > 0
      then [Global_header (g_image_count s),
            Global_c (D_div (D_div (D_u64 (g_sum_c_time_ns s))
                                   (D_int (int32 (g_image_count s * g_runs s)))) D_1e6),
            Global_rvv (D_div (D_div (D_u64 (g_sum_rvv_time_ns s))
                                     (D_int (int32 (g_image_count s * g_runs s)))) D_1e6)]
      else [No_png_line])"
  by (simp add: report_def Let_def printf_def emit_def stdout_of_append)

lemma globals_report:
  "g_image_count (report s) = g_image_count s"
  "g_sum_c_time_ns (report s) = g_sum_c_time_ns s"
  "g_sum_rvv_time_ns (report s) = g_sum_rvv_time_ns s"
  by (simp_all add: report_def Let_def printf_def emit_def)

lemma loop_events_calls_c: "length (calls_of Qoy_c (loop_events w h ob t n)) = n"
  by (induction n arbitrary: t)
     (simp_all add: loop_events_0 loop_events_Suc calls_of_def iteration_events_def)

lemma loop_events_calls_rvv: "length (calls_of Qoy_rvv (loop_events w h ob t n)) = n"
  by (induction n arbitrary: t)
     (simp_all add: loop_events_0 loop_events_Suc calls_of_def iteration_events_def)

lemma image_events_calls:
  "length (calls_of Qoy_c (image_events env path w h runs t)) = nat runs + 1"
  "length (calls_of Qoy_rvv (image_events env path w h runs t)) = nat runs + 1"
  using loop_events_calls_c [of w h "outbuf_size w h" t "nat runs"]
        loop_events_calls_rvv [of w h "outbuf_size w h" t "nat runs"]
  by (simp_all add: image_events_def calls_of_def)

lemma added_events_benchmark_image:
  "stbi_load env path = Some (w, h) \<Longrightarrow> buffers_allocated env s (outbuf_size w h) \<Longrightarrow>
   added_events s (benchmark_image env path runs s) = image_events env path w h runs (ticks s)"
  by (simp add: added_events_def benchmark_image_loaded)

text \<open>
  For an image that loads and gets its two buffers, and a repetition count of at least
  1, \<open>benchmark_image\<close> adds exactly these events: the file line, the two calls of
  \<open>malloc\<close>, one call of each routine with no clock reading around it (the warm-up), then
  \<open>runs\<close> times the same eight events (the baseline buffer is cleared to 0, the clock is
  read, the baseline routine runs, the clock is read; then the same for the accelerated
  routine), then the result line. So each routine is called \<open>runs + 1\<close> times, \<open>runs\<close>
  of them between two clock readings, every \<open>memset\<close> stands before the first reading of
  its call, and what is added to each global sum is the sum of the elapsed times of the
  \<open>runs\<close> timed calls only.
\<close>

lemma benchmark_image_protocol:
  assumes "stbi_load env path = Some (width, height)" and "1 \<le> runs"
    and "buffers_allocated env s (outbuf_size width height)"
  shows
    "added_events s (benchmark_image env path runs s) =
       [Stdout (File_line path width height),
        Malloc (outbuf_size width height), Malloc (outbuf_size width height),
        Call Qoy_c width height, Call Qoy_rvv width height]
       @ concat (map (\<lambda>k. [Memset Qoy_c 0 (outbuf_size width height), Ns (ticks s + 4 * k),
                            Call Qoy_c width height, Ns (ticks s + 4 * k + 1),
                            Memset Qoy_rvv 0 (outbuf_size width height), Ns (ticks s + 4 * k + 2),
                            Call Qoy_rvv width height, Ns (ticks s + 4 * k + 3)])
                 [0..<nat runs])
       @ [Stdout (Runs_line runs
            (file_avg (sum_list (map (\<lambda>k. clock env (ticks s + 4 * k + 1) - clock env (ticks s + 4 * k))
                                     [0..<nat runs])) runs)
            (file_avg (sum_list (map (\<lambda>k. clock env (ticks s + 4 * k + 3) - clock env (ticks s + 4 * k + 2))
                                     [0..<nat runs])) runs))]
     \<and> length (calls_of Qoy_c (added_events s (benchmark_image env path runs s))) = nat runs + 1
     \<and> length (calls_of Qoy_rvv (added_events s (benchmark_image env path runs s))) = nat runs + 1
     \<and> timed_deltas env Qoy_c (added_events s (benchmark_image env path runs s)) =
         map (\<lambda>k. clock env (ticks s + 4 * k + 1) - clock env (ticks s + 4 * k)) [0..<nat runs]
     \<and> timed_deltas env Qoy_rvv (added_events s (benchmark_image env path runs s)) =
         map (\<lambda>k. clock env (ticks s + 4 * k + 3) - clock env (ticks s + 4 * k + 2)) [0..<nat runs]
     \<and> g_sum_c_time_ns (benchmark_image env path runs s) =
         g_sum_c_time_ns s +
         sum_list (map (\<lambda>k. clock env (ticks s + 4 * k + 1) - clock env (ticks s + 4 * k)) [0..<nat runs])
     \<and> g_sum_rvv_time_ns (benchmark_image env path runs s) =
         g_sum_rvv_time_ns s +
         sum_list (map (\<lambda>k. clock env (ticks s + 4 * k + 3) - clock env (ticks s + 4 * k + 2)) [0..<nat runs])"
proof -
  have ev: "added_events s (benchmark_image env path runs s) =
            image_events env path width height runs (ticks s)"
    using assms(1,3) by (rule added_events_benchmark_image)
  have shape: "image_events env path width height runs (ticks s) =
       [Stdout (File_line path width height),
        Malloc (outbuf_size width height), Malloc (outbuf_size width height),
        Call Qoy_c width height, Call Qoy_rvv width height]
       @ concat (map (\<lambda>k. [Memset Qoy_c 0 (outbuf_size width height), Ns (ticks s + 4 * k),
                            Call Qoy_c width height, Ns (ticks s + 4 * k + 1),
                            Memset Qoy_rvv 0 (outbuf_size width height), Ns (ticks s + 4 * k + 2),
                            Call Qoy_rvv width height, Ns (ticks s + 4 * k + 3)])
                 [0..<nat runs])
       @ [Stdout (Runs_line runs
            (file_avg (sum_list (map (\<lambda>k. clock env (ticks s + 4 * k + 1) - clock env (ticks s + 4 * k))
                                     [0..<nat runs])) runs)
            (file_avg (sum_list (map (\<lambda>k. clock env (ticks s + 4 * k + 3) - clock env (ticks s + 4 * k + 2))
                                     [0..<nat runs])) runs))]"
    by (simp add: image_events_def loop_events_def iteration_events_def loop_sum_c_def
        loop_sum_rvv_def delta_c_def delta_rvv_def add.assoc)
  have calls: "length (calls_of Qoy_c (image_events env path width height runs (ticks s))) = nat runs + 1"
    "length (calls_of Qoy_rvv (image_events env path width height runs (ticks s))) = nat runs + 1"
    by (rule image_events_calls)+
  have deltas_c: "timed_deltas env Qoy_c (image_events env path width height runs (ticks s)) =
         map (\<lambda>k. clock env (ticks s + 4 * k + 1) - clock env (ticks s + 4 * k)) [0..<nat runs]"
    by (simp add: timed_deltas_image_c delta_c_def add.assoc)
  have deltas_rvv: "timed_deltas env Qoy_rvv (image_events env path width height runs (ticks s)) =
         map (\<lambda>k. clock env (ticks s + 4 * k + 3) - clock env (ticks s + 4 * k + 2)) [0..<nat runs]"
    by (simp add: timed_deltas_image_rvv delta_rvv_def add.assoc)
  have sums: "g_sum_c_time_ns (benchmark_image env path runs s) =
         g_sum_c_time_ns s +
         sum_list (map (\<lambda>k. clock env (ticks s + 4 * k + 1) - clock env (ticks s + 4 * k)) [0..<nat runs])"
    "g_sum_rvv_time_ns (benchmark_image env path runs s) =
         g_sum_rvv_time_ns s +
         sum_list (map (\<lambda>k. clock env (ticks s + 4 * k + 3) - clock env (ticks s + 4 * k + 2)) [0..<nat runs])"
    using assms(1,3)
    by (simp_all add: benchmark_image_loaded loop_sum_c_def loop_sum_rvv_def delta_c_def
        delta_rvv_def add.assoc)
  show ?thesis
    unfolding ev using shape calls deltas_c deltas_rvv sums by simp
qed

lemma sample_buffers_allocated: "0 \<le> n \<Longrightarrow> buffers_allocated sample_env s n"
  by (auto simp: buffers_allocated_def sample_env_def)

lemma benchmark_image_protocol_example:
  "stbi_load sample_env ''one.png'' = Some (4, 4) \<and> (1::int) \<le> 1 \<and>
   buffers_allocated sample_env initial_state (outbuf_size 4 4) \<and>
   added_events initial_state (benchmark_image sample_env ''one.png'' 1 initial_state) =
     [Stdout (File_line ''one.png'' 4 4), Malloc 80, Malloc 80, Call Qoy_c 4 4, Call Qoy_rvv 4 4,
      Memset Qoy_c 0 80, Ns 0, Call Qoy_c 4 4, Ns 1,
      Memset Qoy_rvv 0 80, Ns 2, Call Qoy_rvv 4 4, Ns 3,
      Stdout (Runs_line 1 (file_avg 1 1) (file_avg 5 1))] \<and>
   length (calls_of Qoy_c
     (added_events initial_state (benchmark_image sample_env ''one.png'' 1 initial_state))) = 2 \<and>
   length (calls_of Qoy_rvv
     (added_events initial_state (benchmark_image sample_env ''one.png'' 1 initial_state))) = 2 \<and>
   timed_deltas sample_env Qoy_c
     (added_events initial_state (benchmark_image sample_env ''one.png'' 1 initial_state)) = [1] \<and>
   timed_deltas sample_env Qoy_rvv
     (added_events initial_state (benchmark_image sample_env ''one.png'' 1 initial_state)) = [5] \<and>
   g_sum_c_time_ns (benchmark_image sample_env ''one.png'' 1 initial_state) = 1 \<and>
   g_sum_rvv_time_ns (benchmark_image sample_env ''one.png'' 1 initial_state) = 5"
proof -
  have load: "stbi_load sample_env ''one.png'' = Some (4, 4)"
    by (simp add: sample_env_def)
  have runs: "(1::int) \<le> 1"
    by simp
  have size: "outbuf_size 4 4 = 80"
    by (simp add: outbuf_size_def int32_def)
  have alloc: "buffers_allocated sample_env initial_state (outbuf_size 4 4)"
    unfolding size by (rule sample_buffers_allocated) simp
  have clk: "clock sample_env k = of_nat (k * k)" for k
    by (simp add: sample_env_def)
  show ?thesis
    using benchmark_image_protocol [OF load runs alloc] load alloc
    by (simp add: initial_state_def size clk calls_of_def)
qed

lemma outbuf_size_huge: "outbuf_size 21000 21000 = - 2089967296"
  by (simp add: outbuf_size_def int32_def)

lemma benchmark_image_huge:
  "benchmark_image huge_env ''huge.png'' runs s =
     s\<lparr>mallocs := mallocs s + 2, killed := True,
        trace := trace s @ [Stdout (File_line ''huge.png'' 21000 21000),
                            Malloc (- 2089967296), Malloc (- 2089967296)]\<rparr>"
proof -
  have load: "stbi_load huge_env ''huge.png'' = Some (21000, 21000)"
    by (simp add: huge_env_def)
  have "\<not> buffers_allocated huge_env s (outbuf_size 21000 21000)"
    by (simp add: buffers_allocated_def outbuf_size_huge)
  from benchmark_image_faulted [OF load this] show ?thesis
    by (simp add: fault_events_def outbuf_size_huge)
qed

text \<open>
  C2 holds for an image that gets its two buffers (\<open>benchmark_image_protocol\<close>) and
  fails for a loaded image whose buffer size leaves the range of \<open>int\<close>. For the image
  \<open>huge.png\<close> of 21000 by 21000 pixels the size is \<open>10500 * 21000 * 10\<close>, as an
  \<open>int\<close> \<open>- 2089967296\<close>; both calls of \<open>malloc\<close> return NULL, the results are not
  checked, and the process is killed at the warm-up call: neither routine is called
  \<open>runs + 1\<close> times, and there is no timed call at all.
\<close>

theorem huge_image_not_benchmarked:
  "stbi_load huge_env ''huge.png'' = Some (21000, 21000)
   \<and> outbuf_size 21000 21000 = - 2089967296
   \<and> benchmark_image huge_env ''huge.png'' 1 initial_state =
       initial_state\<lparr>mallocs := 2, killed := True,
         trace := [Stdout (File_line ''huge.png'' 21000 21000),
                   Malloc (- 2089967296), Malloc (- 2089967296)]\<rparr>
   \<and> killed (benchmark_image huge_env ''huge.png'' 1 initial_state)
   \<and> calls_of Qoy_c (trace (benchmark_image huge_env ''huge.png'' 1 initial_state)) = []
   \<and> calls_of Qoy_rvv (trace (benchmark_image huge_env ''huge.png'' 1 initial_state)) = []
   \<and> timed_deltas huge_env Qoy_c (trace (benchmark_image huge_env ''huge.png'' 1 initial_state)) = []
   \<and> timed_deltas huge_env Qoy_rvv (trace (benchmark_image huge_env ''huge.png'' 1 initial_state)) = []"
  unfolding benchmark_image_huge
  by (simp add: huge_env_def outbuf_size_huge initial_state_def calls_of_def)

lemma main_sample_pics:
  "main sample_env [''benchmark'', ''pics'', ''1''] =
    (Exited 0, \<lparr>g_sum_c_time_ns = 10, g_sum_rvv_time_ns = 18, g_image_count = 2,
        g_runs = 1, ticks = 8, mallocs = 4, killed = False,
        trace =
          [Stdout (File_line ''pics/a.png'' 4 2), Malloc 40, Malloc 40,
           Call Qoy_c 4 2, Call Qoy_rvv 4 2,
           Memset Qoy_c 0 40, Ns 0, Call Qoy_c 4 2, Ns 1,
           Memset Qoy_rvv 0 40, Ns 2, Call Qoy_rvv 4 2, Ns 3,
           Stdout (Runs_line 1 (D_div (D_div (D_u64 1) (D_int 1)) D_1e6)
                               (D_div (D_div (D_u64 5) (D_int 1)) D_1e6)),
           Stdout (Load_error ''pics/bad.png''),
           Stdout (File_line ''pics/b.png'' 2 2), Malloc 20, Malloc 20,
           Call Qoy_c 2 2, Call Qoy_rvv 2 2,
           Memset Qoy_c 0 20, Ns 4, Call Qoy_c 2 2, Ns 5,
           Memset Qoy_rvv 0 20, Ns 6, Call Qoy_rvv 2 2, Ns 7,
           Stdout (Runs_line 1 (D_div (D_div (D_u64 9) (D_int 1)) D_1e6)
                               (D_div (D_div (D_u64 13) (D_int 1)) D_1e6)),
           Stdout (Global_header 2),
           Stdout (Global_c (D_div (D_div (D_u64 10) (D_int 2)) D_1e6)),
           Stdout (Global_rvv (D_div (D_div (D_u64 18) (D_int 2)) D_1e6))]\<rparr>)"
  by code_simp

lemma accumulators_printf: "accumulators (printf l s) = accumulators s"
  by (simp add: accumulators_def printf_def emit_def)

lemma accumulators_report: "accumulators (report s) = accumulators s"
  by (simp add: accumulators_def globals_report)

text \<open>
  C10. The three accumulators start at zero. A target that fails to load leaves them as
  they are, and so does the final report. A target that loads and completes its pass (the
  process is not killed for want of a buffer) adds one to
  \<open>g_image_count\<close> (in 32-bit arithmetic; exactly one below \<open>INT_MAX\<close>) and adds to
  each sum the elapsed times of the \<open>runs\<close> timed calls of its routine. At the end of
  \<open>main\<close>, each sum is the sum of the elapsed times of all timed calls of its routine in
  the run, \<open>g_image_count\<close> is the number of images benchmarked, and each routine has had
  that number times \<open>g_runs\<close> timed calls.
\<close>

theorem accumulators_invariant:
  "accumulators initial_state = (0, 0, 0)
   \<and> (stbi_load env path = None \<longrightarrow>
        accumulators (benchmark_image env path runs s) = accumulators s)
   \<and> accumulators (report s) = accumulators s
   \<and> (stbi_load env path \<noteq> None \<and> \<not> killed (benchmark_image env path runs s) \<longrightarrow>
        g_image_count (benchmark_image env path runs s) = int32 (g_image_count s + 1)
        \<and> (0 \<le> g_image_count s \<and> g_image_count s < 2147483647 \<longrightarrow>
             g_image_count (benchmark_image env path runs s) = g_image_count s + 1)
        \<and> g_sum_c_time_ns (benchmark_image env path runs s) =
            g_sum_c_time_ns s
            + sum_list (timed_deltas env Qoy_c (added_events s (benchmark_image env path runs s)))
        \<and> g_sum_rvv_time_ns (benchmark_image env path runs s) =
            g_sum_rvv_time_ns s
            + sum_list (timed_deltas env Qoy_rvv (added_events s (benchmark_image env path runs s)))
        \<and> length (timed_deltas env Qoy_c (added_events s (benchmark_image env path runs s))) = nat runs
        \<and> length (timed_deltas env Qoy_rvv (added_events s (benchmark_image env path runs s))) = nat runs)
   \<and> g_sum_c_time_ns (snd (main env argv)) =
       sum_list (timed_deltas env Qoy_c (trace (snd (main env argv))))
   \<and> g_sum_rvv_time_ns (snd (main env argv)) =
       sum_list (timed_deltas env Qoy_rvv (trace (snd (main env argv))))
   \<and> g_image_count (snd (main env argv)) = int32 (int (images_done (trace (snd (main env argv)))))
   \<and> (images_done (trace (snd (main env argv))) < 2147483648 \<longrightarrow>
        g_image_count (snd (main env argv)) = int (images_done (trace (snd (main env argv)))))
   \<and> length (timed_deltas env Qoy_c (trace (snd (main env argv)))) =
       images_done (trace (snd (main env argv))) * nat (g_runs (snd (main env argv)))
   \<and> length (timed_deltas env Qoy_rvv (trace (snd (main env argv)))) =
       images_done (trace (snd (main env argv))) * nat (g_runs (snd (main env argv)))"
proof -
  have init: "accumulators initial_state = (0, 0, 0)"
    by (simp add: accumulators_def initial_state_def)
  have failed: "stbi_load env path = None \<longrightarrow>
        accumulators (benchmark_image env path runs s) = accumulators s"
    by (simp add: benchmark_image_failed accumulators_def)
  have rep: "accumulators (report s) = accumulators s"
    by (rule accumulators_report)
  have ok: "g_image_count (benchmark_image env path runs s) = int32 (g_image_count s + 1)
        \<and> (0 \<le> g_image_count s \<and> g_image_count s < 2147483647 \<longrightarrow>
             g_image_count (benchmark_image env path runs s) = g_image_count s + 1)
        \<and> g_sum_c_time_ns (benchmark_image env path runs s) =
            g_sum_c_time_ns s
            + sum_list (timed_deltas env Qoy_c (added_events s (benchmark_image env path runs s)))
        \<and> g_sum_rvv_time_ns (benchmark_image env path runs s) =
            g_sum_rvv_time_ns s
            + sum_list (timed_deltas env Qoy_rvv (added_events s (benchmark_image env path runs s)))
        \<and> length (timed_deltas env Qoy_c (added_events s (benchmark_image env path runs s))) = nat runs
        \<and> length (timed_deltas env Qoy_rvv (added_events s (benchmark_image env path runs s))) = nat runs"
    if "stbi_load env path \<noteq> None \<and> \<not> killed (benchmark_image env path runs s)"
  proof -
    from that obtain w h where load: "stbi_load env path = Some (w, h)"
      by auto
    from load that have alloc: "buffers_allocated env s (outbuf_size w h)"
      by (simp add: benchmark_image_alive)
    have "int32 (g_image_count s + 1) = g_image_count s + 1"
      if "0 \<le> g_image_count s \<and> g_image_count s < 2147483647"
      using that by (simp add: int32_def)
    then show ?thesis
      unfolding added_events_benchmark_image [OF load alloc]
      by (simp add: timed_deltas_image_c timed_deltas_image_rvv
          benchmark_image_loaded [OF load alloc] loop_sum_c_def loop_sum_rvv_def)
  qed
  have fin: "accounted env (snd (main env argv))"
    by (rule accounted_main)
  have exact: "int32 (int n) = int n" if "n < 2147483648" for n :: nat
    using that by (simp add: int32_def)
  have f1: "g_sum_c_time_ns (snd (main env argv)) =
       sum_list (timed_deltas env Qoy_c (trace (snd (main env argv))))"
    and f2: "g_sum_rvv_time_ns (snd (main env argv)) =
       sum_list (timed_deltas env Qoy_rvv (trace (snd (main env argv))))"
    and f3: "g_image_count (snd (main env argv)) = int32 (int (images_done (trace (snd (main env argv)))))"
    and f4: "length (timed_deltas env Qoy_c (trace (snd (main env argv)))) =
       images_done (trace (snd (main env argv))) * nat (g_runs (snd (main env argv)))"
    and f5: "length (timed_deltas env Qoy_rvv (trace (snd (main env argv)))) =
       images_done (trace (snd (main env argv))) * nat (g_runs (snd (main env argv)))"
    using fin unfolding accounted_def by blast+
  have f6: "images_done (trace (snd (main env argv))) < 2147483648 \<longrightarrow>
        g_image_count (snd (main env argv)) = int (images_done (trace (snd (main env argv))))"
    using f3 exact by simp
  from ok have ok': "stbi_load env path \<noteq> None \<and> \<not> killed (benchmark_image env path runs s) \<longrightarrow>
        g_image_count (benchmark_image env path runs s) = int32 (g_image_count s + 1)
        \<and> (0 \<le> g_image_count s \<and> g_image_count s < 2147483647 \<longrightarrow>
             g_image_count (benchmark_image env path runs s) = g_image_count s + 1)
        \<and> g_sum_c_time_ns (benchmark_image env path runs s) =
            g_sum_c_time_ns s
            + sum_list (timed_deltas env Qoy_c (added_events s (benchmark_image env path runs s)))
        \<and> g_sum_rvv_time_ns (benchmark_image env path runs s) =
            g_sum_rvv_time_ns s
            + sum_list (timed_deltas env Qoy_rvv (added_events s (benchmark_image env path runs s)))
        \<and> length (timed_deltas env Qoy_c (added_events s (benchmark_image env path runs s))) = nat runs
        \<and> length (timed_deltas env Qoy_rvv (added_events s (benchmark_image env path runs s))) = nat runs"
    by blast
  show ?thesis
    using init failed rep ok' f1 f2 f3 f4 f5 f6 by blast
qed

theorem accumulators_invariant_witness:
  "stbi_load sample_env ''pics/bad.png'' = None
   \<and> accumulators (benchmark_image sample_env ''pics/bad.png'' 1 initial_state) = (0, 0, 0)
   \<and> stbi_load sample_env ''one.png'' \<noteq> None
   \<and> \<not> killed (benchmark_image sample_env ''one.png'' 1 initial_state)
   \<and> accumulators (benchmark_image sample_env ''one.png'' 1 initial_state) = (1, 5, 1)
   \<and> timed_deltas sample_env Qoy_c
         (added_events initial_state (benchmark_image sample_env ''one.png'' 1 initial_state)) = [1]
   \<and> timed_deltas sample_env Qoy_rvv
         (added_events initial_state (benchmark_image sample_env ''one.png'' 1 initial_state)) = [5]
   \<and> timed_deltas sample_env Qoy_c (trace (snd (main sample_env [''benchmark'', ''pics'', ''1'']))) = [1, 9]
   \<and> timed_deltas sample_env Qoy_rvv (trace (snd (main sample_env [''benchmark'', ''pics'', ''1'']))) = [5, 13]
   \<and> images_done (trace (snd (main sample_env [''benchmark'', ''pics'', ''1'']))) = 2
   \<and> accumulators (snd (main sample_env [''benchmark'', ''pics'', ''1''])) = (10, 18, 2)
   \<and> g_runs (snd (main sample_env [''benchmark'', ''pics'', ''1''])) = 1"
proof -
  have bad: "stbi_load sample_env ''pics/bad.png'' = None"
    by (simp add: sample_env_def)
  have one: "stbi_load sample_env ''one.png'' = Some (4, 4)"
    by (simp add: sample_env_def)
  have clk: "clock sample_env k = of_nat (k * k)" for k
    by (simp add: sample_env_def)
  have size: "outbuf_size 4 4 = 80"
    by (simp add: outbuf_size_def int32_def)
  have alloc: "buffers_allocated sample_env initial_state (outbuf_size 4 4)"
    unfolding size by (rule sample_buffers_allocated) simp
  have ev: "added_events initial_state (benchmark_image sample_env ''one.png'' 1 initial_state) =
        [Stdout (File_line ''one.png'' 4 4), Malloc 80, Malloc 80, Call Qoy_c 4 4, Call Qoy_rvv 4 4,
         Memset Qoy_c 0 80, Ns 0, Call Qoy_c 4 4, Ns 1,
         Memset Qoy_rvv 0 80, Ns 2, Call Qoy_rvv 4 4, Ns 3,
         Stdout (Runs_line 1 (file_avg 1 1) (file_avg 5 1))]"
    unfolding added_events_benchmark_image [OF one alloc]
    by (simp add: image_events_def loop_events_def
        iteration_events_def loop_sum_c_def loop_sum_rvv_def delta_c_def delta_rvv_def
        size initial_state_def clk)
  have alive: "\<not> killed (benchmark_image sample_env ''one.png'' 1 initial_state)"
    unfolding benchmark_image_loaded [OF one alloc] by (simp add: initial_state_def)
  have c1: "accumulators (benchmark_image sample_env ''pics/bad.png'' 1 initial_state) = (0, 0, 0)"
    by (simp add: benchmark_image_failed [OF bad] accumulators_def initial_state_def)
  have c2: "accumulators (benchmark_image sample_env ''one.png'' 1 initial_state) = (1, 5, 1)"
    unfolding benchmark_image_loaded [OF one alloc]
    by (simp add: accumulators_def initial_state_def
        loop_sum_c_def loop_sum_rvv_def delta_c_def delta_rvv_def clk int32_def)
  have c3: "timed_deltas sample_env Qoy_c
         (added_events initial_state (benchmark_image sample_env ''one.png'' 1 initial_state)) = [1]"
    and c4: "timed_deltas sample_env Qoy_rvv
         (added_events initial_state (benchmark_image sample_env ''one.png'' 1 initial_state)) = [5]"
    unfolding ev by (simp_all add: clk)
  have c5: "timed_deltas sample_env Qoy_c (trace (snd (main sample_env [''benchmark'', ''pics'', ''1'']))) = [1, 9]"
    and c6: "timed_deltas sample_env Qoy_rvv (trace (snd (main sample_env [''benchmark'', ''pics'', ''1'']))) = [5, 13]"
    and c7: "images_done (trace (snd (main sample_env [''benchmark'', ''pics'', ''1'']))) = 2"
    and c8: "accumulators (snd (main sample_env [''benchmark'', ''pics'', ''1''])) = (10, 18, 2)"
    and c9: "g_runs (snd (main sample_env [''benchmark'', ''pics'', ''1''])) = 1"
    unfolding main_sample_pics
    by (simp_all add: clk images_done_def is_runs_line_def accumulators_def)
  have c0: "stbi_load sample_env ''one.png'' \<noteq> None"
    using one by simp
  show ?thesis
    using accumulators_invariant [of sample_env "''pics/bad.png''" 1 initial_state
            "[''benchmark'', ''pics'', ''1'']"]
          accumulators_invariant [of sample_env "''one.png''" 1 initial_state
            "[''benchmark'', ''pics'', ''1'']"]
          bad c0 alive c1 c2 c3 c4 c5 c6 c7 c8 c9
    by blast
qed

lemma same_but_trace_benchmark_image:
  assumes "same_but_trace s s'"
  shows "same_but_trace (benchmark_image env path runs s) (benchmark_image env path runs s')"
proof (cases "stbi_load env path")
  case None
  with assms show ?thesis
    by (simp add: same_but_trace_def benchmark_image_failed)
next
  case (Some wh)
  obtain w h where wh: "wh = (w, h)" by (cases wh)
  from assms have same: "buffers_allocated env s' (outbuf_size w h) = buffers_allocated env s (outbuf_size w h)"
    by (simp add: same_but_trace_def buffers_allocated_def)
  show ?thesis
  proof (cases "buffers_allocated env s (outbuf_size w h)")
    case True
    with same assms Some wh show ?thesis
      by (simp add: same_but_trace_def benchmark_image_loaded)
  next
    case False
    with same assms Some wh show ?thesis
      by (simp add: same_but_trace_def benchmark_image_faulted)
  qed
qed

lemma same_but_trace_readdir_loop:
  "same_but_trace s s' \<Longrightarrow>
   same_but_trace (readdir_loop env dirpath runs entries s) (readdir_loop env dirpath runs entries s')"
proof (induction entries arbitrary: s s')
  case Nil
  then show ?case by simp
next
  case (Cons d rest)
  from Cons.prems
  have "same_but_trace (benchmark_image env (snprintf_path dirpath d) runs s)
                       (benchmark_image env (snprintf_path dirpath d) runs s')"
    by (rule same_but_trace_benchmark_image)
  then have "same_but_trace
      (readdir_loop env dirpath runs rest (benchmark_image env (snprintf_path dirpath d) runs s))
      (readdir_loop env dirpath runs rest (benchmark_image env (snprintf_path dirpath d) runs s'))"
    by (rule Cons.IH)
  moreover have "same_but_trace (readdir_loop env dirpath runs rest s)
                                (readdir_loop env dirpath runs rest s')"
    using Cons.prems by (rule Cons.IH)
  ultimately show ?case
    using Cons.prems
    by (simp add: readdir_loop_Cons same_but_trace_def del: readdir_loop.simps)
qed

lemma same_but_trace_accumulators: "same_but_trace s s' \<Longrightarrow> accumulators s = accumulators s'"
  by (simp add: same_but_trace_def accumulators_def)

lemma readdir_loop_failed_entry:
  assumes "has_png_suffix d_name" and "stbi_load env (snprintf_path dirpath d_name) = None"
    and "\<not> killed (readdir_loop env dirpath runs before s)"
  shows "readdir_loop env dirpath runs (before @ d_name # after) s =
     readdir_loop env dirpath runs after
       ((readdir_loop env dirpath runs before s)
          \<lparr>trace := trace (readdir_loop env dirpath runs before s)
                     @ [Stdout (Load_error (snprintf_path dirpath d_name))]\<rparr>)"
  using assms
  by (simp add: readdir_loop_append readdir_loop_Cons benchmark_image_failed
      del: readdir_loop.simps)

text \<open>
  C6. A target whose image fails to load adds exactly one line to the output, the
  diagnostic with its path, and changes nothing else in the state: the counter and the two
  sums stay as they are. In a directory scan that reaches it (the process was not killed
  for want of a buffer before), the entries after it are processed as if it had printed
  its diagnostic only, and the accumulators end as they would without the entry.
\<close>

theorem failed_load_skipped:
  "(stbi_load env path = None \<longrightarrow>
      benchmark_image env path runs s = s\<lparr>trace := trace s @ [Stdout (Load_error path)]\<rparr>
      \<and> accumulators (benchmark_image env path runs s) = accumulators s)
   \<and> (has_png_suffix d_name \<and> stbi_load env (snprintf_path dirpath d_name) = None \<longrightarrow>
      (\<not> killed (readdir_loop env dirpath runs before s) \<longrightarrow>
       readdir_loop env dirpath runs (before @ d_name # after) s =
         readdir_loop env dirpath runs after
           ((readdir_loop env dirpath runs before s)
              \<lparr>trace := trace (readdir_loop env dirpath runs before s)
                         @ [Stdout (Load_error (snprintf_path dirpath d_name))]\<rparr>))
      \<and> accumulators (readdir_loop env dirpath runs (before @ d_name # after) s) =
        accumulators (readdir_loop env dirpath runs (before @ after) s))"
proof -
  have one: "benchmark_image env path runs s = s\<lparr>trace := trace s @ [Stdout (Load_error path)]\<rparr>
      \<and> accumulators (benchmark_image env path runs s) = accumulators s"
    if "stbi_load env path = None"
    using that by (simp add: benchmark_image_failed accumulators_def)
  have scan: "(\<not> killed (readdir_loop env dirpath runs before s) \<longrightarrow>
       readdir_loop env dirpath runs (before @ d_name # after) s =
         readdir_loop env dirpath runs after
           ((readdir_loop env dirpath runs before s)
              \<lparr>trace := trace (readdir_loop env dirpath runs before s)
                         @ [Stdout (Load_error (snprintf_path dirpath d_name))]\<rparr>))
      \<and> accumulators (readdir_loop env dirpath runs (before @ d_name # after) s) =
        accumulators (readdir_loop env dirpath runs (before @ after) s)"
    if png: "has_png_suffix d_name" and bad: "stbi_load env (snprintf_path dirpath d_name) = None"
  proof (cases "killed (readdir_loop env dirpath runs before s)")
    case True
    then show ?thesis
      by (simp add: readdir_loop_append readdir_loop_killed)
  next
    case False
    let ?s1 = "readdir_loop env dirpath runs before s"
    let ?s2 = "?s1\<lparr>trace := trace ?s1 @ [Stdout (Load_error (snprintf_path dirpath d_name))]\<rparr>"
    have eq: "readdir_loop env dirpath runs (before @ d_name # after) s =
              readdir_loop env dirpath runs after ?s2"
      using png bad False by (rule readdir_loop_failed_entry)
    have "same_but_trace ?s2 ?s1"
      by (simp add: same_but_trace_def)
    then have "same_but_trace (readdir_loop env dirpath runs after ?s2)
                              (readdir_loop env dirpath runs after ?s1)"
      by (rule same_but_trace_readdir_loop)
    then have "accumulators (readdir_loop env dirpath runs after ?s2) =
               accumulators (readdir_loop env dirpath runs (before @ after) s)"
      by (simp add: same_but_trace_accumulators readdir_loop_append)
    with eq show ?thesis
      by simp
  qed
  from one scan show ?thesis
    by blast
qed

lemma main_sample_pics_stdout:
  "stdout_of (trace (snd (main sample_env [''benchmark'', ''pics'', ''1'']))) =
     [File_line ''pics/a.png'' 4 2,
      Runs_line 1 (file_avg 1 1) (file_avg 5 1),
      Load_error ''pics/bad.png'',
      File_line ''pics/b.png'' 2 2,
      Runs_line 1 (file_avg 9 1) (file_avg 13 1),
      Global_header 2,
      Global_c (D_div (D_div (D_u64 10) (D_int 2)) D_1e6),
      Global_rvv (D_div (D_div (D_u64 18) (D_int 2)) D_1e6)]"
  unfolding main_sample_pics by (simp add: file_avg_def)

theorem failed_load_skipped_witness:
  "stbi_load sample_env ''pics/bad.png'' = None
   \<and> benchmark_image sample_env ''pics/bad.png'' 1 initial_state =
       initial_state\<lparr>trace := [Stdout (Load_error ''pics/bad.png'')]\<rparr>
   \<and> accumulators (benchmark_image sample_env ''pics/bad.png'' 1 initial_state) = (0, 0, 0)
   \<and> has_png_suffix ''bad.png''
   \<and> stbi_load sample_env (snprintf_path ''pics'' ''bad.png'') = None
   \<and> \<not> killed (readdir_loop sample_env ''pics'' 1 [''a.png''] initial_state)
   \<and> readdir_loop sample_env ''pics'' 1 ([''a.png''] @ ''bad.png'' # [''b.png'']) initial_state =
       readdir_loop sample_env ''pics'' 1 [''b.png'']
         ((readdir_loop sample_env ''pics'' 1 [''a.png''] initial_state)
            \<lparr>trace := trace (readdir_loop sample_env ''pics'' 1 [''a.png''] initial_state)
                       @ [Stdout (Load_error (snprintf_path ''pics'' ''bad.png''))]\<rparr>)
   \<and> accumulators (readdir_loop sample_env ''pics'' 1 ([''a.png''] @ ''bad.png'' # [''b.png''])
                      initial_state) = (10, 18, 2)
   \<and> accumulators (readdir_loop sample_env ''pics'' 1 ([''a.png''] @ [''b.png'']) initial_state) =
       (10, 18, 2)
   \<and> filter (\<lambda>l. l = Load_error ''pics/bad.png'')
        (stdout_of (trace (snd (main sample_env [''benchmark'', ''pics'', ''1''])))) =
       [Load_error ''pics/bad.png'']"
proof -
  have bad: "stbi_load sample_env ''pics/bad.png'' = None"
    by (simp add: sample_env_def)
  have png: "has_png_suffix ''bad.png''"
    by (simp add: has_png_suffix_def)
  have bad': "stbi_load sample_env (snprintf_path ''pics'' ''bad.png'') = None"
    by (simp add: sample_env_def snprintf_path_def)
  have without: "accumulators (readdir_loop sample_env ''pics'' 1 ([''a.png''] @ [''b.png''])
                      initial_state) = (10, 18, 2)"
    by code_simp
  have lines: "filter (\<lambda>l. l = Load_error ''pics/bad.png'')
        (stdout_of (trace (snd (main sample_env [''benchmark'', ''pics'', ''1''])))) =
       [Load_error ''pics/bad.png'']"
    unfolding main_sample_pics_stdout by simp
  have init: "accumulators initial_state = (0, 0, 0)" "trace initial_state = []"
    by (simp_all add: accumulators_def initial_state_def)
  note inst = failed_load_skipped [of sample_env "''pics/bad.png''" 1 initial_state "''bad.png''"
      "''pics''" "[''a.png'']" "[''b.png'']"]
  from inst bad
  have p1: "benchmark_image sample_env ''pics/bad.png'' 1 initial_state =
              initial_state\<lparr>trace := trace initial_state @ [Stdout (Load_error ''pics/bad.png'')]\<rparr>"
    and p2: "accumulators (benchmark_image sample_env ''pics/bad.png'' 1 initial_state) =
              accumulators initial_state"
    by blast+
  have alive: "\<not> killed (readdir_loop sample_env ''pics'' 1 [''a.png''] initial_state)"
    by code_simp
  from inst png bad' alive
  have p4: "readdir_loop sample_env ''pics'' 1 ([''a.png''] @ ''bad.png'' # [''b.png'']) initial_state =
       readdir_loop sample_env ''pics'' 1 [''b.png'']
         ((readdir_loop sample_env ''pics'' 1 [''a.png''] initial_state)
            \<lparr>trace := trace (readdir_loop sample_env ''pics'' 1 [''a.png''] initial_state)
                       @ [Stdout (Load_error (snprintf_path ''pics'' ''bad.png''))]\<rparr>)"
    by blast
  from inst png bad'
  have p3: "accumulators (readdir_loop sample_env ''pics'' 1 ([''a.png''] @ ''bad.png'' # [''b.png''])
                      initial_state) =
            accumulators (readdir_loop sample_env ''pics'' 1 ([''a.png''] @ [''b.png'']) initial_state)"
    by blast
  have q1: "benchmark_image sample_env ''pics/bad.png'' 1 initial_state =
       initial_state\<lparr>trace := [Stdout (Load_error ''pics/bad.png'')]\<rparr>"
    using p1 by (simp add: init)
  have q2: "accumulators (benchmark_image sample_env ''pics/bad.png'' 1 initial_state) = (0, 0, 0)"
    using p2 by (simp add: init)
  have q3: "accumulators (readdir_loop sample_env ''pics'' 1 ([''a.png''] @ ''bad.png'' # [''b.png''])
                      initial_state) = (10, 18, 2)"
    using p3 without by (simp del: readdir_loop.simps)
  show ?thesis
    by (intro conjI bad q1 q2 png bad' alive p4 q3 without lines)
qed

lemma never_faults_buffers:
  assumes "never_faults env" and "stbi_load env path = Some (w, h)"
  shows "buffers_allocated env s (outbuf_size w h)"
proof -
  from assms have "0 \<le> outbuf_size w h"
    unfolding never_faults_def by blast
  moreover from assms(1) have "malloc_ok env k (outbuf_size w h)" if "0 \<le> outbuf_size w h" for k
    using that unfolding never_faults_def by blast
  ultimately show ?thesis
    by (auto simp: buffers_allocated_def)
qed

lemma never_faults_benchmark_image:
  "never_faults env \<Longrightarrow> \<not> killed s \<Longrightarrow> \<not> killed (benchmark_image env path runs s)"
  by (auto simp: killed_benchmark_image never_faults_buffers split: option.split)

lemma never_faults_readdir_loop:
  "never_faults env \<Longrightarrow> \<not> killed s \<Longrightarrow> \<not> killed (readdir_loop env dirpath runs entries s)"
proof (induction entries arbitrary: s)
  case Nil
  then show ?case by simp
next
  case (Cons d rest)
  from Cons.prems
  have "\<not> killed (benchmark_image env (snprintf_path dirpath d) runs s)"
    by (rule never_faults_benchmark_image)
  with Cons.prems(1)
  have "\<not> killed (readdir_loop env dirpath runs rest (benchmark_image env (snprintf_path dirpath d) runs s))"
    by (rule Cons.IH)
  moreover have "\<not> killed (readdir_loop env dirpath runs rest s)"
    using Cons.prems by (rule Cons.IH)
  ultimately show ?case
    using Cons.prems(2) by (simp add: readdir_loop_Cons del: readdir_loop.simps(2))
qed

lemma never_faults_dispatch:
  "never_faults env \<Longrightarrow> \<not> killed s \<Longrightarrow> \<not> killed (dispatch env input_path s)"
  by (simp add: dispatch_def benchmark_directory_def never_faults_readdir_loop
      never_faults_benchmark_image killed_printf split: option.split file_type.split)

lemma never_faults_main: "never_faults env \<Longrightarrow> \<not> killed (snd (main env argv))"
proof (cases "length argv < 3")
  case True
  then show ?thesis
    by (simp add: main_usage killed_printf initial_state_def)
next
  case False
  assume "never_faults env"
  then have "\<not> killed (dispatch env (argv ! 1) (initial_state\<lparr>g_runs := run_count (argv ! 2)\<rparr>))"
    by (rule never_faults_dispatch) (simp add: initial_state_def)
  with False show ?thesis
    by (simp add: killed_main)
qed

lemma never_faults_sample: "never_faults sample_env"
  by (auto simp: never_faults_def sample_env_def outbuf_size_def int32_def split: if_splits)

text \<open>
  A process that is not killed returns 0 from \<open>main\<close>, whatever the arguments, the file
  system and the decoder do; with fewer than two arguments after the program name it
  prints the usage line and nothing else. Where every image that loads gets its
  buffers, no process is killed.
\<close>

lemma main_exit_status:
  "fst (main env argv) = (if killed (snd (main env argv)) then Sigsegv else Exited 0)
   \<and> (never_faults env \<longrightarrow> fst (main env argv) = Exited 0)
   \<and> (length argv < 3 \<longrightarrow>
        main env argv =
          (Exited 0,
           initial_state\<lparr>trace := [Stdout (Usage_line (case argv of [] \<Rightarrow> None | a # _ \<Rightarrow> Some a))]\<rparr>))"
proof -
  have status: "fst (main env argv) = (if killed (snd (main env argv)) then Sigsegv else Exited 0)"
  proof (cases "length argv < 3")
    case True
    then show ?thesis
      by (simp add: main_usage killed_printf initial_state_def)
  next
    case False
    then show ?thesis
      by (simp add: main_dispatch killed_report)
  qed
  moreover have "fst (main env argv) = Exited 0" if "never_faults env"
    using status never_faults_main [OF that, of argv] by simp
  moreover have "main env argv =
          (Exited 0,
           initial_state\<lparr>trace := [Stdout (Usage_line (case argv of [] \<Rightarrow> None | a # _ \<Rightarrow> Some a))]\<rparr>)"
    if "length argv < 3"
    using that by (simp add: main_usage printf_def emit_def initial_state_def)
  ultimately show ?thesis
    by blast
qed

lemma dispatch_regular:
  "stat_mode env input_path = Some S_IFREG \<Longrightarrow>
   dispatch env input_path s = benchmark_image env input_path (g_runs s) s"
  by (simp add: dispatch_def)

lemma dispatch_directory:
  "stat_mode env input_path = Some S_IFDIR \<Longrightarrow> dir_entries env input_path = Some entries \<Longrightarrow>
   dispatch env input_path s = readdir_loop env input_path (g_runs s) entries s"
  by (simp add: dispatch_def benchmark_directory_def)

text \<open>
  C9 holds for every run in which each image that loads gets its buffers
  (\<open>main_exit_status\<close>) and fails for the run on \<open>huge.png\<close>: the size of its buffers,
  \<open>10500 * 21000 * 10\<close>, is \<open>- 2089967296\<close> as an \<open>int\<close>, \<open>malloc\<close> returns NULL
  twice, the results are not checked, and the process is killed by SIGSEGV at the warm-up
  call; it does not exit with status 0.
\<close>

theorem huge_image_kills_main:
  "stat_mode huge_env ''huge.png'' = Some S_IFREG
   \<and> stbi_load huge_env ''huge.png'' = Some (21000, 21000)
   \<and> main huge_env [''benchmark'', ''huge.png'', ''1''] =
       (Sigsegv,
        initial_state\<lparr>mallocs := 2, killed := True,
          trace := [Stdout (File_line ''huge.png'' 21000 21000),
                    Malloc (- 2089967296), Malloc (- 2089967296)]\<rparr>)
   \<and> fst (main huge_env [''benchmark'', ''huge.png'', ''1'']) \<noteq> Exited 0"
proof -
  have st: "stat_mode huge_env ''huge.png'' = Some S_IFREG"
    and ld: "stbi_load huge_env ''huge.png'' = Some (21000, 21000)"
    by (simp_all add: huge_env_def)
  have rc: "run_count ''1'' = 1"
    by (simp add: run_count_def atoi_def atoi_digits_def atoi_negative_def isspace_def isdigit_def
        digit_value_def int32_def)
  have "main huge_env [''benchmark'', ''huge.png'', ''1''] =
       (Sigsegv,
        initial_state\<lparr>mallocs := 2, killed := True,
          trace := [Stdout (File_line ''huge.png'' 21000 21000),
                    Malloc (- 2089967296), Malloc (- 2089967296)]\<rparr>)"
    by (simp add: main_dispatch rc dispatch_regular [OF st] benchmark_image_huge initial_state_def)
  with st ld show ?thesis
    by simp
qed

lemma int32_range: "- 2147483648 \<le> int32 x \<and> int32 x < 2147483648"
  by (simp add: int32_def)

lemma atoi_range: "- 2147483648 \<le> atoi tok \<and> atoi tok < 2147483648"
  by (simp add: atoi_def Let_def int32_range)

lemma run_count_range: "1 \<le> run_count tok \<and> run_count tok < 2147483648"
  using atoi_range [of tok] by (simp add: run_count_def)




lemma g_runs_main:
  "3 \<le> length argv \<Longrightarrow> g_runs (snd (main env argv)) = run_count (argv ! 2)"
  by (simp add: main_dispatch g_runs_report g_runs_dispatch)


















text \<open>
  C4. When the input is a regular file that loads and is processed (the process is not
  killed for want of a buffer), the program prints the file line, the
  per-file result line and the three lines of the global average, and the two averages of
  the global lines are the two averages of the per-file line, for every repetition count.
\<close>

theorem single_file_averages_agree:
  assumes "3 \<le> length argv"
    and "stat_mode env (argv ! 1) = Some S_IFREG"
    and "stbi_load env (argv ! 1) = Some (width, height)"
    and "\<not> killed (snd (main env argv))"
  shows "\<exists>avg_c avg_rvv.
     stdout_of (trace (snd (main env argv))) =
       [File_line (argv ! 1) width height,
        Runs_line (run_count (argv ! 2)) avg_c avg_rvv,
        Global_header 1,
        Global_c avg_c,
        Global_rvv avg_rvv]
     \<and> avg_c = file_avg (g_sum_c_time_ns (snd (main env argv))) (run_count (argv ! 2))
     \<and> avg_rvv = file_avg (g_sum_rvv_time_ns (snd (main env argv))) (run_count (argv ! 2))"
proof -
  let ?r = "run_count (argv ! 2)"
  let ?s0 = "initial_state\<lparr>g_runs := ?r\<rparr>"
  let ?s1 = "benchmark_image env (argv ! 1) ?r ?s0"
  have main: "main env argv = (Exited 0, report ?s1)"
    unfolding main_run [OF assms(1,4)] dispatch_regular [OF assms(2)] by simp
  have "\<not> killed ?s1"
    using assms(4) unfolding main by (simp add: killed_report)
  with assms(3) have alloc: "buffers_allocated env ?s0 (outbuf_size width height)"
    by (rule benchmark_image_alive)
  have r32: "int32 ?r = ?r"
    using run_count_range [of "argv ! 2"] by (simp add: int32_def)
  have s1: "?s1 = ?s0\<lparr>g_sum_c_time_ns := loop_sum_c env 0 (nat ?r),
                        g_sum_rvv_time_ns := loop_sum_rvv env 0 (nat ?r),
                        g_image_count := 1,
                        ticks := 4 * nat ?r,
                        mallocs := 2,
                        trace := image_events env (argv ! 1) width height ?r 0\<rparr>"
    unfolding benchmark_image_loaded [OF assms(3) alloc] by (simp add: initial_state_def int32_def)
  have out: "stdout_of (trace (report ?s1)) =
       [File_line (argv ! 1) width height,
        Runs_line ?r (file_avg (loop_sum_c env 0 (nat ?r)) ?r) (file_avg (loop_sum_rvv env 0 (nat ?r)) ?r),
        Global_header 1,
        Global_c (file_avg (loop_sum_c env 0 (nat ?r)) ?r),
        Global_rvv (file_avg (loop_sum_rvv env 0 (nat ?r)) ?r)]"
    unfolding stdout_report s1 by (simp add: stdout_of_image_events r32 file_avg_def)
  have sums: "g_sum_c_time_ns (report ?s1) = loop_sum_c env 0 (nat ?r)"
    "g_sum_rvv_time_ns (report ?s1) = loop_sum_rvv env 0 (nat ?r)"
    unfolding globals_report s1 by simp_all
  show ?thesis
    unfolding main using out sums by simp
qed

lemma main_sample_one:
  "main sample_env [''benchmark'', ''one.png'', ''2''] =
    (Exited 0, \<lparr>g_sum_c_time_ns = 10, g_sum_rvv_time_ns = 18, g_image_count = 1,
        g_runs = 2, ticks = 8, mallocs = 2, killed = False,
        trace =
          [Stdout (File_line ''one.png'' 4 4), Malloc 80, Malloc 80,
           Call Qoy_c 4 4, Call Qoy_rvv 4 4,
           Memset Qoy_c 0 80, Ns 0, Call Qoy_c 4 4, Ns 1,
           Memset Qoy_rvv 0 80, Ns 2, Call Qoy_rvv 4 4, Ns 3,
           Memset Qoy_c 0 80, Ns 4, Call Qoy_c 4 4, Ns 5,
           Memset Qoy_rvv 0 80, Ns 6, Call Qoy_rvv 4 4, Ns 7,
           Stdout (Runs_line 2 (D_div (D_div (D_u64 10) (D_int 2)) D_1e6)
                               (D_div (D_div (D_u64 18) (D_int 2)) D_1e6)),
           Stdout (Global_header 1),
           Stdout (Global_c (D_div (D_div (D_u64 10) (D_int 2)) D_1e6)),
           Stdout (Global_rvv (D_div (D_div (D_u64 18) (D_int 2)) D_1e6))]\<rparr>)"
  by code_simp

theorem single_file_averages_agree_witness:
  "3 \<le> length [''benchmark'', ''one.png'', ''2'']
   \<and> stat_mode sample_env ([''benchmark'', ''one.png'', ''2''] ! 1) = Some S_IFREG
   \<and> stbi_load sample_env ([''benchmark'', ''one.png'', ''2''] ! 1) = Some (4, 4)
   \<and> \<not> killed (snd (main sample_env [''benchmark'', ''one.png'', ''2'']))
   \<and> stdout_of (trace (snd (main sample_env [''benchmark'', ''one.png'', ''2'']))) =
       [File_line ''one.png'' 4 4,
        Runs_line 2 (file_avg 10 2) (file_avg 18 2),
        Global_header 1,
        Global_c (file_avg 10 2),
        Global_rvv (file_avg 18 2)]"
proof -
  have l: "3 \<le> length [''benchmark'', ''one.png'', ''2'']"
    by simp
  have st: "stat_mode sample_env ([''benchmark'', ''one.png'', ''2''] ! 1) = Some S_IFREG"
    by (simp add: sample_env_def)
  have ld: "stbi_load sample_env ([''benchmark'', ''one.png'', ''2''] ! 1) = Some (4, 4)"
    by (simp add: sample_env_def)
  have alive: "\<not> killed (snd (main sample_env [''benchmark'', ''one.png'', ''2'']))"
    unfolding main_sample_one by simp
  have sums: "g_sum_c_time_ns (snd (main sample_env [''benchmark'', ''one.png'', ''2''])) = 10"
    "g_sum_rvv_time_ns (snd (main sample_env [''benchmark'', ''one.png'', ''2''])) = 18"
    unfolding main_sample_one by simp_all
  have rc: "run_count ([''benchmark'', ''one.png'', ''2''] ! 2) = 2"
    by (simp add: run_count_def atoi_def atoi_digits_def atoi_negative_def isspace_def isdigit_def
        digit_value_def int32_def)
  from single_file_averages_agree [OF l st ld alive]
  have "stdout_of (trace (snd (main sample_env [''benchmark'', ''one.png'', ''2'']))) =
       [File_line ''one.png'' 4 4,
        Runs_line 2 (file_avg 10 2) (file_avg 18 2),
        Global_header 1,
        Global_c (file_avg 10 2),
        Global_rvv (file_avg 18 2)]"
    unfolding sums rc by simp
  with l st ld alive show ?thesis
    by (intro conjI)
qed

lemma main_sample_dots:
  "main sample_env [''benchmark'', ''dots'', ''1''] =
     (Exited 0, \<lparr>g_sum_c_time_ns = 0, g_sum_rvv_time_ns = 0, g_image_count = 0,
          g_runs = 1, ticks = 0, mallocs = 0, killed = False, trace = [Stdout No_png_line]\<rparr>)"
  by code_simp

text \<open>
  C1, as the claim states it, fails. In the directory \<open>pics\<close> three names end with
  \<open>.png\<close> and the counter ends at 2, because \<open>bad.png\<close> does not load; in the
  directory \<open>dots\<close> the file named \<open>.png\<close> loads when asked, and the counter ends
  at 0, because the code wants more than four characters.
\<close>

theorem directory_image_count_counterexample:
  "dir_entries sample_env ''pics'' = Some [''.'', ''..'', ''a.png'', ''bad.png'', ''notes.txt'', ''b.png'']
   \<and> length (filter spec_png_entry [''.'', ''..'', ''a.png'', ''bad.png'', ''notes.txt'', ''b.png'']) = 3
   \<and> g_image_count (snd (main sample_env [''benchmark'', ''pics'', ''1''])) = 2
   \<and> g_image_count (snd (main sample_env [''benchmark'', ''pics'', ''1''])) \<noteq>
       int (length (filter spec_png_entry [''.'', ''..'', ''a.png'', ''bad.png'', ''notes.txt'', ''b.png'']))
   \<and> dir_entries sample_env ''dots'' = Some [''.'', ''..'', ''.png'']
   \<and> length (filter spec_png_entry [''.'', ''..'', ''.png'']) = 1
   \<and> stbi_load sample_env (snprintf_path ''dots'' ''.png'') = Some (2, 2)
   \<and> g_image_count (snd (main sample_env [''benchmark'', ''dots'', ''1''])) = 0
   \<and> g_image_count (snd (main sample_env [''benchmark'', ''dots'', ''1''])) \<noteq>
       int (length (filter spec_png_entry [''.'', ''..'', ''.png'']))"
  unfolding main_sample_pics main_sample_dots
  by (simp add: sample_env_def spec_png_entry_def snprintf_path_def)

text \<open>
  C1, amended. After the scan of a directory by a process that is not killed for want of
  a buffer, \<open>g_image_count\<close> is the number of entries
  whose name has more than four characters, ends with \<open>.png\<close> and whose file (the path
  \<open>dirpath/name\<close>, cut to 1023 characters) the decoder loads, whatever else the directory
  holds; the number is held in a 32-bit \<open>int\<close>, so it is exact below \<open>2^31\<close>.
\<close>

theorem directory_image_count:
  assumes "3 \<le> length argv"
    and "stat_mode env (argv ! 1) = Some S_IFDIR"
    and "dir_entries env (argv ! 1) = Some entries"
    and "\<not> killed (snd (main env argv))"
  shows "g_image_count (snd (main env argv)) = int32 (int (length (loaded env (argv ! 1) entries)))
     \<and> (length (loaded env (argv ! 1) entries) < 2147483648 \<longrightarrow>
          g_image_count (snd (main env argv)) = int (length (loaded env (argv ! 1) entries)))
     \<and> loaded env (argv ! 1) entries =
         filter (\<lambda>d_name. 4 < length d_name \<and> drop (length d_name - 4) d_name = ''.png'' \<and>
                           stbi_load env (take 1023 (argv ! 1 @ ''/'' @ d_name)) \<noteq> None) entries"
proof -
  let ?s0 = "initial_state\<lparr>g_runs := run_count (argv ! 2)\<rparr>"
  have main: "main env argv =
      (Exited 0, report (readdir_loop env (argv ! 1) (g_runs ?s0) entries ?s0))"
    unfolding main_run [OF assms(1,4)] dispatch_directory [OF assms(2,3)] by simp
  have alive: "\<not> killed (readdir_loop env (argv ! 1) (g_runs ?s0) entries ?s0)"
    using assms(4) unfolding main by (simp add: killed_report)
  have "g_image_count ?s0 = int32 0"
    by (simp add: initial_state_def int32_def)
  with alive have "g_image_count (readdir_loop env (argv ! 1) (g_runs ?s0) entries ?s0) =
             int32 (0 + int (length (loaded env (argv ! 1) entries)))"
    by (rule g_image_count_readdir_loop)
  then have count: "g_image_count (snd (main env argv)) =
                    int32 (int (length (loaded env (argv ! 1) entries)))"
    unfolding main by (simp add: globals_report)
  have exact: "int32 (int n) = int n" if "n < 2147483648" for n :: nat
    using that by (simp add: int32_def)
  have unfolded: "loaded env (argv ! 1) entries =
         filter (\<lambda>d_name. 4 < length d_name \<and> drop (length d_name - 4) d_name = ''.png'' \<and>
                           stbi_load env (take 1023 (argv ! 1 @ ''/'' @ d_name)) \<noteq> None) entries"
    unfolding loaded_def targets_def filter_filter
    by (rule filter_cong) (auto simp: has_png_suffix_def snprintf_path_def Let_def)
  from count exact [of "length (loaded env (argv ! 1) entries)"] unfolded show ?thesis
    by simp
qed

theorem directory_image_count_witness:
  "3 \<le> length [''benchmark'', ''pics'', ''1'']
   \<and> stat_mode sample_env ([''benchmark'', ''pics'', ''1''] ! 1) = Some S_IFDIR
   \<and> dir_entries sample_env ([''benchmark'', ''pics'', ''1''] ! 1) =
       Some [''.'', ''..'', ''a.png'', ''bad.png'', ''notes.txt'', ''b.png'']
   \<and> \<not> killed (snd (main sample_env [''benchmark'', ''pics'', ''1'']))
   \<and> loaded sample_env ''pics'' [''.'', ''..'', ''a.png'', ''bad.png'', ''notes.txt'', ''b.png''] =
       [''a.png'', ''b.png'']
   \<and> g_image_count (snd (main sample_env [''benchmark'', ''pics'', ''1''])) = 2"
proof -
  have alive: "\<not> killed (snd (main sample_env [''benchmark'', ''pics'', ''1'']))"
    unfolding main_sample_pics by simp
  have l: "3 \<le> length [''benchmark'', ''pics'', ''1'']"
    by simp
  have st: "stat_mode sample_env ([''benchmark'', ''pics'', ''1''] ! 1) = Some S_IFDIR"
    by (simp add: sample_env_def)
  have en: "dir_entries sample_env ([''benchmark'', ''pics'', ''1''] ! 1) =
       Some [''.'', ''..'', ''a.png'', ''bad.png'', ''notes.txt'', ''b.png'']"
    by (simp add: sample_env_def)
  have ld: "loaded sample_env ''pics'' [''.'', ''..'', ''a.png'', ''bad.png'', ''notes.txt'', ''b.png''] =
       [''a.png'', ''b.png'']"
    by (simp add: loaded_def targets_def has_png_suffix_def snprintf_path_def sample_env_def)
  from directory_image_count [OF l st en alive, THEN conjunct2, THEN conjunct1]
  have "g_image_count (snd (main sample_env [''benchmark'', ''pics'', ''1''])) = 2"
    by (simp add: ld)
  with l st en alive ld show ?thesis
    by (intro conjI)
qed

lemma scan_line_simps:
  "scan_line runs (Load_error p)" "scan_line runs (File_line p w h)" "scan_line runs (Dir_error p)"
  "scan_line runs Neither_line" "scan_line runs (Stat_error p)"
  "scan_line runs (Runs_line runs (file_avg x runs) (file_avg y runs))"
  by (simp_all add: scan_line_def file_avg_def)

lemma scan_lines_benchmark_image:
  assumes "list_all (scan_line runs) (stdout_of (trace s))"
  shows "list_all (scan_line runs) (stdout_of (trace (benchmark_image env path runs s)))"
proof (cases "stbi_load env path")
  case None
  with assms show ?thesis
    by (simp add: benchmark_image_failed stdout_of_append scan_line_simps)
next
  case (Some wh)
  obtain w h where wh: "wh = (w, h)" by (cases wh)
  show ?thesis
  proof (cases "buffers_allocated env s (outbuf_size w h)")
    case True
    with Some wh assms show ?thesis
      by (simp add: benchmark_image_loaded stdout_of_append stdout_of_image_events scan_line_simps)
  next
    case False
    with Some wh assms show ?thesis
      by (simp add: benchmark_image_faulted stdout_of_append stdout_of_fault_events scan_line_simps)
  qed
qed

lemma scan_lines_readdir_loop:
  "list_all (scan_line runs) (stdout_of (trace s)) \<Longrightarrow>
   list_all (scan_line runs) (stdout_of (trace (readdir_loop env dirpath runs entries s)))"
proof (induction entries arbitrary: s)
  case Nil
  then show ?case by simp
next
  case (Cons d rest)
  from Cons.prems
  have "list_all (scan_line runs)
          (stdout_of (trace (benchmark_image env (snprintf_path dirpath d) runs s)))"
    by (rule scan_lines_benchmark_image)
  then have "list_all (scan_line runs) (stdout_of (trace
          (readdir_loop env dirpath runs rest (benchmark_image env (snprintf_path dirpath d) runs s))))"
    by (rule Cons.IH)
  moreover have "list_all (scan_line runs) (stdout_of (trace (readdir_loop env dirpath runs rest s)))"
    using Cons.prems by (rule Cons.IH)
  ultimately show ?case
    using Cons.prems by (simp add: readdir_loop_Cons del: readdir_loop.simps)
qed

lemma scan_lines_dispatch:
  "list_all (scan_line (g_runs s)) (stdout_of (trace s)) \<Longrightarrow>
   list_all (scan_line (g_runs s)) (stdout_of (trace (dispatch env input_path s)))"
  by (auto simp: dispatch_def benchmark_directory_def scan_lines_readdir_loop
      scan_lines_benchmark_image stdout_printf scan_line_simps
      split: option.split file_type.split)

lemma scan_lines_main:
  "list_all (scan_line (run_count tok))
     (stdout_of (trace (dispatch env input_path (initial_state\<lparr>g_runs := run_count tok\<rparr>))))"
  using scan_lines_dispatch [of "initial_state\<lparr>g_runs := run_count tok\<rparr>" env input_path]
  by (simp add: initial_state_def)

lemma scan_line_not_global: "scan_line runs l \<Longrightarrow> \<not> is_global_line l"
  by (cases l) (simp_all add: scan_line_def is_global_line_def)

lemma scan_lines_no_global: "list_all (scan_line runs) ls \<Longrightarrow> filter is_global_line ls = []"
  by (induction ls) (auto dest: scan_line_not_global)

lemma scan_line_denominators:
  "scan_line runs l \<Longrightarrow> 1 \<le> runs \<Longrightarrow> d \<in> set (line_denominators l) \<Longrightarrow> \<not> is_zero d"
  by (cases l) (auto simp: scan_line_def)

lemma scan_lines_denominators:
  "list_all (scan_line runs) ls \<Longrightarrow> 1 \<le> runs \<Longrightarrow>
   \<forall>l\<in>set ls. \<forall>d\<in>set (line_denominators l). \<not> is_zero d"
  by (auto simp: list_all_iff dest: scan_line_denominators)

text \<open>
  C8, as the claim states it, fails: a run with no argument after the program name
  benchmarks no image, prints the usage line and returns before the report.
\<close>

theorem no_png_message_counterexample:
  "g_image_count (snd (main sample_env [''benchmark''])) = 0
   \<and> images_done (trace (snd (main sample_env [''benchmark'']))) = 0
   \<and> stdout_of (trace (snd (main sample_env [''benchmark'']))) = [Usage_line (Some ''benchmark'')]
   \<and> No_png_line \<notin> set (stdout_of (trace (snd (main sample_env [''benchmark'']))))"
  by (simp add: main_def printf_def emit_def initial_state_def images_done_def is_runs_line_def)

text \<open>
  C8, amended. In a run that has its two arguments, is not killed for want of a buffer
  and ends with \<open>g_image_count\<close> at 0,
  the last line printed is \<open>No PNG files were processed.\<close>, no line of the global average
  is printed, and no number printed was divided by an integer zero.
\<close>

theorem no_png_message:
  assumes "3 \<le> length argv" and "g_image_count (snd (main env argv)) = 0"
    and "\<not> killed (snd (main env argv))"
  shows "stdout_of (trace (snd (main env argv))) \<noteq> []
     \<and> last (stdout_of (trace (snd (main env argv)))) = No_png_line
     \<and> format_of (last (stdout_of (trace (snd (main env argv))))) = ''No PNG files were processed.''
     \<and> filter is_global_line (stdout_of (trace (snd (main env argv)))) = []
     \<and> (\<forall>l\<in>set (stdout_of (trace (snd (main env argv)))).
          \<forall>d\<in>set (line_denominators l). \<not> is_zero d)"
proof -
  let ?r = "run_count (argv ! 2)"
  let ?s = "dispatch env (argv ! 1) (initial_state\<lparr>g_runs := ?r\<rparr>)"
  have main: "main env argv = (Exited 0, report ?s)"
    using assms(1,3) by (rule main_run)
  have zero: "g_image_count ?s = 0"
    using assms(2) by (simp add: main globals_report)
  have out: "stdout_of (trace (snd (main env argv))) = stdout_of (trace ?s) @ [No_png_line]"
    using zero by (simp add: main stdout_report)
  have scan: "list_all (scan_line ?r) (stdout_of (trace ?s))"
    by (rule scan_lines_main)
  have "1 \<le> ?r"
    using run_count_range [of "argv ! 2"] by simp
  with scan have den: "\<forall>l\<in>set (stdout_of (trace ?s)). \<forall>d\<in>set (line_denominators l). \<not> is_zero d"
    by (rule scan_lines_denominators)
  have glob: "filter is_global_line (stdout_of (trace ?s)) = []"
    using scan by (rule scan_lines_no_global)
  show ?thesis
    unfolding out using den glob by (simp add: is_global_line_def)
qed

theorem no_png_message_witness:
  "3 \<le> length [''benchmark'', ''dots'', ''1'']
   \<and> g_image_count (snd (main sample_env [''benchmark'', ''dots'', ''1''])) = 0
   \<and> \<not> killed (snd (main sample_env [''benchmark'', ''dots'', ''1'']))
   \<and> stdout_of (trace (snd (main sample_env [''benchmark'', ''dots'', ''1'']))) = [No_png_line]
   \<and> last (stdout_of (trace (snd (main sample_env [''benchmark'', ''dots'', ''1''])))) = No_png_line
   \<and> filter is_global_line (stdout_of (trace (snd (main sample_env [''benchmark'', ''dots'', ''1''])))) = []"
proof -
  have l: "3 \<le> length [''benchmark'', ''dots'', ''1'']"
    by simp
  have z: "g_image_count (snd (main sample_env [''benchmark'', ''dots'', ''1''])) = 0"
    unfolding main_sample_dots by simp
  have o: "stdout_of (trace (snd (main sample_env [''benchmark'', ''dots'', ''1'']))) = [No_png_line]"
    unfolding main_sample_dots by simp
  have k: "\<not> killed (snd (main sample_env [''benchmark'', ''dots'', ''1'']))"
    unfolding main_sample_dots by simp
  note inst = no_png_message [OF l z k]
  show ?thesis
    by (intro conjI l z k o inst [THEN conjunct2, THEN conjunct1]
        inst [THEN conjunct2, THEN conjunct2, THEN conjunct2, THEN conjunct1])
qed

lemma images_done_benchmark_image:
  assumes "\<not> killed (benchmark_image env path runs s)"
  shows "images_done (trace (benchmark_image env path runs s)) =
     images_done (trace s) + (if stbi_load env path = None then 0 else 1)"
proof (cases "stbi_load env path")
  case None
  then show ?thesis
    by (simp add: benchmark_image_failed images_done_append images_done_print is_runs_line_def)
next
  case (Some wh)
  obtain w h where wh: "wh = (w, h)" by (cases wh)
  from Some wh assms have "buffers_allocated env s (outbuf_size w h)"
    by (simp add: benchmark_image_alive)
  with Some wh show ?thesis
    by (simp add: benchmark_image_loaded images_done_append images_done_image_events)
qed

lemma images_done_readdir_loop:
  "\<not> killed (readdir_loop env dirpath runs entries s) \<Longrightarrow>
   images_done (trace (readdir_loop env dirpath runs entries s)) =
     images_done (trace s) + length (loaded env dirpath entries)"
proof (induction entries arbitrary: s)
  case Nil
  then show ?case by (simp add: loaded_def targets_def)
next
  case (Cons d rest)
  from Cons.prems have alive: "\<not> killed s"
    by (rule readdir_loop_alive_start)
  show ?case
  proof (cases "has_png_suffix d")
    case True
    let ?s' = "benchmark_image env (snprintf_path dirpath d) runs s"
    have step: "readdir_loop env dirpath runs (d # rest) s = readdir_loop env dirpath runs rest ?s'"
      using alive True by (simp add: readdir_loop_Cons del: readdir_loop.simps(2))
    with Cons.prems have alive_rest: "\<not> killed (readdir_loop env dirpath runs rest ?s')"
      by simp
    then have "\<not> killed ?s'"
      by (rule readdir_loop_alive_start)
    then have "images_done (trace ?s') =
        images_done (trace s) + (if stbi_load env (snprintf_path dirpath d) = None then 0 else 1)"
      by (rule images_done_benchmark_image)
    with Cons.IH [OF alive_rest] True show ?thesis
      unfolding step by (simp add: loaded_def targets_def)
  next
    case False
    then have step: "readdir_loop env dirpath runs (d # rest) s = readdir_loop env dirpath runs rest s"
      using alive by (simp add: readdir_loop_Cons del: readdir_loop.simps(2))
    with Cons.prems have "\<not> killed (readdir_loop env dirpath runs rest s)"
      by simp
    from Cons.IH [OF this] False show ?thesis
      unfolding step by (simp add: loaded_def targets_def)
  qed
qed

lemma images_done_report: "images_done (trace (report s)) = images_done (trace s)"
  by (simp add: images_done_def stdout_report is_runs_line_def)

lemma global_lines_main:
  assumes "3 \<le> length argv" and "0 < g_image_count (snd (main env argv))"
    and "\<not> killed (snd (main env argv))"
  shows "filter is_global_line (stdout_of (trace (snd (main env argv)))) =
     [Global_header (g_image_count (snd (main env argv))),
      Global_c (D_div (D_div (D_u64 (g_sum_c_time_ns (snd (main env argv))))
                  (D_int (int32 (g_image_count (snd (main env argv)) * g_runs (snd (main env argv))))))
                D_1e6),
      Global_rvv (D_div (D_div (D_u64 (g_sum_rvv_time_ns (snd (main env argv))))
                  (D_int (int32 (g_image_count (snd (main env argv)) * g_runs (snd (main env argv))))))
                D_1e6)]"
proof -
  let ?s = "dispatch env (argv ! 1) (initial_state\<lparr>g_runs := run_count (argv ! 2)\<rparr>)"
  have main: "main env argv = (Exited 0, report ?s)"
    using assms(1,3) by (rule main_run)
  have pos: "0 < g_image_count ?s"
    using assms(2) by (simp add: main globals_report)
  have "filter is_global_line (stdout_of (trace ?s)) = []"
    using scan_lines_main by (rule scan_lines_no_global)
  then show ?thesis
    using pos by (simp add: main stdout_report globals_report g_runs_report is_global_line_def)
qed

text \<open>
  Where the product \<open>g_image_count * g_runs\<close> fits an \<open>int\<close> and the process is
  not killed, the global average of
  each routine is the sum of the elapsed times of all its timed calls, divided by their
  number and then by \<open>1e6\<close>.
\<close>

lemma global_average_in_range:
  assumes "3 \<le> length argv"
    and "0 < images_done (trace (snd (main env argv)))"
    and "int (images_done (trace (snd (main env argv)))) * g_runs (snd (main env argv)) < 2147483648"
    and "\<not> killed (snd (main env argv))"
  shows "filter is_global_line (stdout_of (trace (snd (main env argv)))) =
     [Global_header (int (images_done (trace (snd (main env argv))))),
      Global_c (D_div (D_div (D_u64 (sum_list (timed_deltas env Qoy_c (trace (snd (main env argv))))))
                  (D_int (int (length (timed_deltas env Qoy_c (trace (snd (main env argv))))))))
                D_1e6),
      Global_rvv (D_div (D_div (D_u64 (sum_list (timed_deltas env Qoy_rvv (trace (snd (main env argv))))))
                  (D_int (int (length (timed_deltas env Qoy_rvv (trace (snd (main env argv))))))))
                D_1e6)]"
proof -
  let ?s = "snd (main env argv)"
  let ?n = "images_done (trace ?s)"
  have acc: "accounted env ?s"
    by (rule accounted_main)
  have runs: "1 \<le> g_runs ?s"
    using assms(1) run_count_range [of "argv ! 2"] by (simp add: g_runs_main)
  have "int ?n \<le> int ?n * g_runs ?s"
    using runs by (simp add: mult_le_cancel_left1)
  with assms(3) have small: "int ?n < 2147483648"
    by linarith
  then have count: "g_image_count ?s = int ?n"
    using acc by (simp add: accounted_def int32_def)
  have prod: "int32 (int ?n * g_runs ?s) = int ?n * g_runs ?s"
    using assms(2,3) runs by (simp add: int32_def)
  have len: "int (length (timed_deltas env Qoy_c (trace ?s))) = int ?n * g_runs ?s"
    "int (length (timed_deltas env Qoy_rvv (trace ?s))) = int ?n * g_runs ?s"
    using acc runs by (simp_all add: accounted_def)
  have sums: "g_sum_c_time_ns ?s = sum_list (timed_deltas env Qoy_c (trace ?s))"
    "g_sum_rvv_time_ns ?s = sum_list (timed_deltas env Qoy_rvv (trace ?s))"
    using acc by (simp_all add: accounted_def)
  have "0 < g_image_count ?s"
    using count assms(2) by simp
  from global_lines_main [OF assms(1) this assms(4)] show ?thesis
    unfolding len by (simp add: count prod sums)
qed

text \<open>
  C3 fails where the product overflows. With the two images of \<open>pics\<close> and a repetition
  count of \<open>2^30\<close>, each routine has \<open>2^31\<close> timed calls and each sum is the sum of
  their elapsed times, but the \<open>int\<close> product \<open>g_image_count * g_runs\<close> is
  \<open>- 2^31\<close>, and the program divides each sum by it.
\<close>

theorem global_average_overflow:
  "images_done (trace (snd (main sample_env [''benchmark'', ''pics'', ''1073741824'']))) = 2
   \<and> g_image_count (snd (main sample_env [''benchmark'', ''pics'', ''1073741824''])) = 2
   \<and> g_runs (snd (main sample_env [''benchmark'', ''pics'', ''1073741824''])) = 1073741824
   \<and> length (timed_deltas sample_env Qoy_c
         (trace (snd (main sample_env [''benchmark'', ''pics'', ''1073741824''])))) = 2147483648
   \<and> length (timed_deltas sample_env Qoy_rvv
         (trace (snd (main sample_env [''benchmark'', ''pics'', ''1073741824''])))) = 2147483648
   \<and> g_sum_c_time_ns (snd (main sample_env [''benchmark'', ''pics'', ''1073741824''])) =
       sum_list (timed_deltas sample_env Qoy_c
         (trace (snd (main sample_env [''benchmark'', ''pics'', ''1073741824'']))))
   \<and> g_sum_rvv_time_ns (snd (main sample_env [''benchmark'', ''pics'', ''1073741824''])) =
       sum_list (timed_deltas sample_env Qoy_rvv
         (trace (snd (main sample_env [''benchmark'', ''pics'', ''1073741824'']))))
   \<and> filter is_global_line
         (stdout_of (trace (snd (main sample_env [''benchmark'', ''pics'', ''1073741824''])))) =
       [Global_header 2,
        Global_c (D_div (D_div
          (D_u64 (g_sum_c_time_ns (snd (main sample_env [''benchmark'', ''pics'', ''1073741824'']))))
          (D_int (- 2147483648))) D_1e6),
        Global_rvv (D_div (D_div
          (D_u64 (g_sum_rvv_time_ns (snd (main sample_env [''benchmark'', ''pics'', ''1073741824'']))))
          (D_int (- 2147483648))) D_1e6)]"
proof -
  let ?argv = "[''benchmark'', ''pics'', ''1073741824'']"
  let ?s = "snd (main sample_env ?argv)"
  have l: "3 \<le> length ?argv"
    by simp
  have rc: "run_count (?argv ! 2) = 1073741824"
    by (simp add: run_count_def atoi_def atoi_digits_def atoi_negative_def isspace_def isdigit_def
        digit_value_def int32_def)
  have runs: "g_runs ?s = 1073741824"
    using g_runs_main [OF l, of sample_env] rc by simp
  have st: "stat_mode sample_env (?argv ! 1) = Some S_IFDIR"
    by (simp add: sample_env_def)
  have en: "dir_entries sample_env (?argv ! 1) =
       Some [''.'', ''..'', ''a.png'', ''bad.png'', ''notes.txt'', ''b.png'']"
    by (simp add: sample_env_def)
  have ld: "loaded sample_env (?argv ! 1) [''.'', ''..'', ''a.png'', ''bad.png'', ''notes.txt'', ''b.png''] =
       [''a.png'', ''b.png'']"
    by (simp add: loaded_def targets_def has_png_suffix_def snprintf_path_def sample_env_def)
  have alive: "\<not> killed ?s"
    using never_faults_sample by (rule never_faults_main)
  then have "\<not> killed (readdir_loop sample_env (?argv ! 1) (run_count (?argv ! 2))
        [''.'', ''..'', ''a.png'', ''bad.png'', ''notes.txt'', ''b.png'']
        (initial_state\<lparr>g_runs := run_count (?argv ! 2)\<rparr>))"
    unfolding killed_main [OF l] dispatch_directory [OF st en] by simp
  then have "images_done (trace (readdir_loop sample_env (?argv ! 1) (run_count (?argv ! 2))
        [''.'', ''..'', ''a.png'', ''bad.png'', ''notes.txt'', ''b.png'']
        (initial_state\<lparr>g_runs := run_count (?argv ! 2)\<rparr>))) =
        images_done (trace (initial_state\<lparr>g_runs := run_count (?argv ! 2)\<rparr>))
        + length (loaded sample_env (?argv ! 1) [''.'', ''..'', ''a.png'', ''bad.png'', ''notes.txt'', ''b.png''])"
    by (rule images_done_readdir_loop)
  then have "images_done (trace ?s) =
        images_done (trace (initial_state\<lparr>g_runs := run_count (?argv ! 2)\<rparr>))
        + length (loaded sample_env (?argv ! 1) [''.'', ''..'', ''a.png'', ''bad.png'', ''notes.txt'', ''b.png''])"
    unfolding main_run [OF l alive] snd_conv images_done_report dispatch_directory [OF st en]
    by simp
  then have imgs: "images_done (trace ?s) = 2"
    unfolding ld by (simp add: initial_state_def images_done_def)
  have acc: "accounted sample_env ?s"
    by (rule accounted_main)
  have count: "g_image_count ?s = 2"
    using acc imgs by (simp add: accounted_def int32_def)
  have len: "length (timed_deltas sample_env Qoy_c (trace ?s)) = 2147483648"
    "length (timed_deltas sample_env Qoy_rvv (trace ?s)) = 2147483648"
    using acc imgs runs by (simp_all add: accounted_def)
  have sums: "g_sum_c_time_ns ?s = sum_list (timed_deltas sample_env Qoy_c (trace ?s))"
    "g_sum_rvv_time_ns ?s = sum_list (timed_deltas sample_env Qoy_rvv (trace ?s))"
    using acc by (simp_all add: accounted_def)
  have "0 < g_image_count ?s"
    using count by simp
  from global_lines_main [OF l this alive]
  have lines: "filter is_global_line (stdout_of (trace ?s)) =
       [Global_header 2,
        Global_c (D_div (D_div (D_u64 (g_sum_c_time_ns ?s)) (D_int (- 2147483648))) D_1e6),
        Global_rvv (D_div (D_div (D_u64 (g_sum_rvv_time_ns ?s)) (D_int (- 2147483648))) D_1e6)]"
    unfolding count runs by (simp add: int32_def)
  show ?thesis
    by (intro conjI imgs count runs len sums lines)
qed

text \<open>
  The capacity of the output buffers (C7 is about it and about the conversion routines,
  whose code is not part of this program): ten bytes for each pair of pixels of a row, a
  row of odd width giving up its last pixel. For a width of 1 the capacity is 0.
\<close>

lemma outbuf_size_in_range:
  assumes "0 \<le> width" and "0 \<le> height" and "(width div 2) * height * 10 < 2147483648"
  shows "outbuf_size width height = (width div 2) * height * 10"
proof -
  define p where "p = (width div 2) * height"
  have nn: "0 \<le> p"
    using assms(1,2) by (simp add: p_def)
  have b: "p * 10 < 2147483648"
    using assms(3) by (simp add: p_def)
  have "int32 p = p"
    using nn b by (simp add: int32_def)
  moreover have "int32 (p * 10) = p * 10"
    using nn b by (simp add: int32_def)
  ultimately show ?thesis
    by (simp add: outbuf_size_def p_def)
qed

lemma outbuf_size_width_one: "outbuf_size 1 height = 0"
  by (simp add: outbuf_size_def int32_def)

end
